theory Spec2Isabelle
  imports Complex_Main "HOL-Library.Log_Nat"
begin

section \<open>Numbers\<close>

text \<open>
  The JavaScript sources compute on IEEE doubles. Integer quantities (channel values,
  rounded HSL components, scores, pixel counts, canvas coordinates) are modelled as
  \<open>int\<close> or \<open>nat\<close>; fractional quantities are modelled as exact \<open>real\<close>s, except
  in \<open>_detectBodyColumn\<close>, whose model rounds every operation as the source does
  (section Floating point).
  From finite input the modelled functions produce a non-finite value only on an empty
  list: \<open>0 / 0\<close> is NaN, and \<open>Math.max()\<close> is minus infinity. Where a function
  can return NaN the model returns \<open>None\<close>.

  \<open>Math.round\<close> rounds to the nearest integer, a tie going towards plus infinity.
  \<open>Math.floor\<close> is applied in the sources to products of a size with one of the
  constants 0.1, 0.3, 0.4, 0.5 and 0.05; for sizes below \<open>2\<^sup>5\<^sup>0\<close> the double
  product and the exact product have the same floor.
\<close>

definition Math_round :: "real \<Rightarrow> int" where
  "Math_round x = \<lfloor>x + 1 / 2\<rfloor>"

definition Math_floor :: "real \<Rightarrow> int" where
  "Math_floor x = \<lfloor>x\<rfloor>"

section \<open>Data model\<close>

text \<open>
  The objects \<open>{r, g, b}\<close> and \<open>{h, s, l}\<close>. The field names carry a prefix, since a
  one-letter record field would capture the variables of every later statement.
\<close>

record rgb =
  rgb_r :: int
  rgb_g :: int
  rgb_b :: int

record hsl =
  hsl_h :: int
  hsl_s :: int
  hsl_l :: int

text \<open>
  An entry of \<open>dominantColors\<close>: \<open>{rgb, hsl, hex, frequency}\<close>. The \<open>hex\<close> string is
  for display only and is left out.
\<close>

record dominantColor =
  d_rgb :: rgb
  d_hsl :: hsl
  frequency :: real

text \<open>
  A colour record as \<open>extractZoneColors\<close> builds it. The display strings \<open>hex\<close> and
  \<open>name\<close> are read by none of the functions below and are left out.
\<close>

record color =
  rgb :: rgb
  hsl :: hsl
  confidence :: real
  dominantColors :: "dominantColor list"
  isPattern :: bool
  pixelCount :: nat
  filteredCount :: nat

section \<open>ColorAnalysis: conversions and hue utilities\<close>

text \<open>
  \<open>rgbToHsl\<close> with exact arithmetic. Where an exact product \<open>h * 360\<close>, \<open>s * 100\<close> or
  \<open>l * 100\<close> is a tie, an integer plus one half, the doubles of the source can land
  just below the tie and round down, so that the component here is one more than the
  source's; the channel values (120, 0, 1), with exact hue 359.5, are such an input.
  Away from ties the two agree.
\<close>

definition rgbToHsl :: "int \<Rightarrow> int \<Rightarrow> int \<Rightarrow> hsl" where
  "rgbToHsl r0 g0 b0 =
     (let r = real_of_int r0 / 255;
          g = real_of_int g0 / 255;
          b = real_of_int b0 / 255;
          mx = max r (max g b);
          mn = min r (min g b);
          l = (mx + mn) / 2;
          d = mx - mn;
          s = (if mx \<noteq> mn
               then (if l > 1 / 2 then d / (2 - mx - mn) else d / (mx + mn))
               else 0);
          h = (if mx \<noteq> mn
               then (if mx = r then ((g - b) / d + (if g < b then 6 else 0)) / 6
                     else if mx = g then ((b - r) / d + 2) / 6
                     else ((r - g) / d + 4) / 6)
               else 0)
      in \<lparr>hsl_h = Math_round (h * 360),
          hsl_s = Math_round (s * 100),
          hsl_l = Math_round (l * 100)\<rparr>)"

definition hueDifference :: "int \<Rightarrow> int \<Rightarrow> int" where
  "hueDifference h1 h2 = (let diff = \<bar>h1 - h2\<bar> in min diff (360 - diff))"

definition isWarmHue :: "int \<Rightarrow> bool" where
  "isWarmHue h \<longleftrightarrow> (h \<ge> 0 \<and> h < 70) \<or> h \<ge> 300"

definition isCoolHue :: "int \<Rightarrow> bool" where
  "isCoolHue h \<longleftrightarrow> h \<ge> 170 \<and> h < 300"

definition isNeutral :: "color \<Rightarrow> bool" where
  "isNeutral c =
     (let s = hsl_s (hsl c); l = hsl_l (hsl c)
      in if s < 12 then True
         else if (l < 12 \<or> l > 92) \<and> s < 20 then True
         else False)"

section \<open>ColorAnalysis: temperature and harmony\<close>

text \<open>
  \<open>Math.max(...xs)\<close> and \<open>Math.min(...xs)\<close> over a list of integers. On the empty
  list JavaScript returns minus and plus infinity, and no equation is given for it here.
  \<open>analyzeHarmony\<close> calls them on non-empty lists only (lemma
  \<open>analyzeHarmony_lists_nonempty\<close> below); \<open>calculateOutfitScore\<close> can reach them
  on the empty list, and that case is written out there.
\<close>

fun Math_max :: "int list \<Rightarrow> int" where
  "Math_max (x # xs) = fold max xs x"

fun Math_min :: "int list \<Rightarrow> int" where
  "Math_min (x # xs) = fold min xs x"

text \<open>\<open>xs.reduce((a, b) => a + b, 0) / xs.length\<close> on a non-empty list.\<close>

definition average :: "int list \<Rightarrow> real" where
  "average xs = real_of_int (sum_list xs) / real (length xs)"

text \<open>
  The nested loops \<open>for i\<close>, \<open>for j = i + 1\<close> that push \<open>f(xs[i], xs[j])\<close>, in the
  order the loops push.
\<close>

fun pairwise :: "('a \<Rightarrow> 'a \<Rightarrow> 'b) \<Rightarrow> 'a list \<Rightarrow> 'b list" where
  "pairwise f [] = []"
| "pairwise f (x # xs) = map (f x) xs @ pairwise f xs"

definition getTemperature :: "color \<Rightarrow> string" where
  "getTemperature c =
     (if isNeutral c then ''neutral''
      else if isWarmHue (hsl_h (hsl c)) then ''warm'' else ''cool'')"

record temperature =
  dominant :: string
  warmCount :: nat
  coolCount :: nat
  neutralCount :: nat
  coherence :: real

definition analyzeTemperature :: "color list \<Rightarrow> temperature" where
  "analyzeTemperature colors =
     (let warmCount = length (filter (\<lambda>c. getTemperature c = ''warm'') colors);
          coolCount = length (filter (\<lambda>c. getTemperature c \<noteq> ''warm''
                                          \<and> getTemperature c = ''cool'') colors);
          neutralCount = length (filter (\<lambda>c. getTemperature c \<noteq> ''warm''
                                             \<and> getTemperature c \<noteq> ''cool'') colors);
          chromaticTotal = warmCount + coolCount;
          coherence = (if chromaticTotal > 0
                       then real (max warmCount coolCount) / real chromaticTotal
                       else 1);
          dominant = (if warmCount > coolCount then ''warm''
                      else if coolCount > warmCount then ''cool''
                      else ''neutral'')
      in \<lparr>dominant = dominant, warmCount = warmCount, coolCount = coolCount,
          neutralCount = neutralCount, coherence = coherence\<rparr>)"

text \<open>
  A harmony result \<open>{type, score, explanation, details}\<close>. The explanation is a fixed
  text per branch and \<open>details\<close> repeats intermediate values; neither is read by the
  scoring engine and both are left out.
\<close>

record harmony =
  harmony_type :: string
  harmony_score :: int

definition chromaticsOf :: "color list \<Rightarrow> color list" where
  "chromaticsOf colors = filter (\<lambda>c. \<not> isNeutral c) colors"

definition neutralsOf :: "color list \<Rightarrow> color list" where
  "neutralsOf colors = filter isNeutral colors"

text \<open>The pairwise circular hue differences of the chromatic colours.\<close>

definition differencesOf :: "color list \<Rightarrow> int list" where
  "differencesOf chromatics = pairwise hueDifference (map (\<lambda>c. hsl_h (hsl c)) chromatics)"

definition analyzeHarmony :: "color list \<Rightarrow> harmony" where
  "analyzeHarmony colors =
     (if length colors < 2 then \<lparr>harmony_type = ''Single Color'', harmony_score = 50\<rparr>
      else
        let neutrals = neutralsOf colors;
            chromatics = chromaticsOf colors
        in
        if length chromatics = 0 then
          (let lightRange = Math_max (map (\<lambda>c. hsl_l (hsl c)) colors)
                            - Math_min (map (\<lambda>c. hsl_l (hsl c)) colors)
           in if lightRange > 40
              then \<lparr>harmony_type = ''Achromatic Contrast'', harmony_score = 85\<rparr>
              else \<lparr>harmony_type = ''Achromatic'', harmony_score = 72\<rparr>)
        else if length chromatics = 1 \<and> length neutrals \<ge> 1 then
          (let saturation = hsl_s (hsl (chromatics ! 0))
           in if saturation > 50
              then \<lparr>harmony_type = ''Neutral-Anchored Pop'', harmony_score = 88\<rparr>
              else \<lparr>harmony_type = ''Neutral-Anchored'', harmony_score = 80\<rparr>)
        else
          let saturations = map (\<lambda>c. hsl_s (hsl c)) chromatics;
              avgSaturation = average saturations;
              differences = differencesOf chromatics;
              maxDiff = Math_max differences;
              minDiff = Math_min differences;
              avgDiff = average differences;
              tempAnalysis = analyzeTemperature chromatics
          in
          if maxDiff < 25 then
            (let satVariance = Math_max saturations - Math_min saturations;
                 lightVariance = Math_max (map (\<lambda>c. hsl_l (hsl c)) chromatics)
                                 - Math_min (map (\<lambda>c. hsl_l (hsl c)) chromatics)
             in if satVariance > 25 \<or> lightVariance > 25
                then \<lparr>harmony_type = ''Monochromatic'', harmony_score = 87\<rparr>
                else \<lparr>harmony_type = ''Monochromatic - Flat'', harmony_score = 68\<rparr>)
          else if maxDiff \<ge> 25 \<and> maxDiff \<le> 60 then
            (let bonus = (if length neutrals > 0 then 5 else 0);
                 tempBonus = (if coherence tempAnalysis = 1 then 3 else 0)
             in \<lparr>harmony_type = ''Analogous'', harmony_score = min 100 (88 + bonus + tempBonus)\<rparr>)
          else if length chromatics \<ge> 2 \<and> (\<exists>d \<in> set differences. d \<ge> 130 \<and> d \<le> 170) then
            \<lparr>harmony_type = ''Split-Complementary'', harmony_score = 84\<rparr>
          else if maxDiff \<ge> 150 \<and> maxDiff \<le> 180 then
            (let hasAnchor = (length neutrals > 0)
             in if avgSaturation > 60 \<and> \<not> hasAnchor
                then \<lparr>harmony_type = ''Complementary - Bold'', harmony_score = 75\<rparr>
                else \<lparr>harmony_type = ''Complementary'',
                      harmony_score = (if hasAnchor then 90 else 84)\<rparr>)
          else if length chromatics \<ge> 3 \<and> length differences \<ge> 3
                  \<and> (let spreadVariance = maxDiff - minDiff;
                          isTriadic = ((\<forall>d \<in> set differences. d \<ge> 90 \<and> d \<le> 150)
                                       \<or> spreadVariance < 40)
                      in isTriadic \<and> avgDiff \<ge> 90) then
            \<lparr>harmony_type = ''Triadic'', harmony_score = 82\<rparr>
          else if avgDiff \<ge> 60 \<and> avgDiff < 130 \<and> avgSaturation > 45 then
            (if length neutrals \<ge> 1 \<and> length chromatics \<le> 2
             then \<lparr>harmony_type = ''Tension (Neutral-Rescued)'', harmony_score = 62\<rparr>
             else let tempClash = (warmCount tempAnalysis > 0 \<and> coolCount tempAnalysis > 0)
                  in \<lparr>harmony_type = ''Color Clash'',
                      harmony_score = (if tempClash then 32 else 40)\<rparr>)
          else if coherence tempAnalysis = 1 \<and> length chromatics \<ge> 2 then
            \<lparr>harmony_type = (if dominant tempAnalysis = ''warm'' then ''Warm'' else ''Cool'')
                             @ '' Harmony'',
              harmony_score = 78\<rparr>
          else
            (let mixedScore = Math_round (50 + coherence tempAnalysis * 15
                                          + (if length neutrals > 0 then 5 else 0))
             in \<lparr>harmony_type = ''Mixed'', harmony_score = min 70 mixedScore\<rparr>))"

text \<open>A colour record with the given HSL components, for stating examples.\<close>

definition colorOfHsl :: "int \<Rightarrow> int \<Rightarrow> int \<Rightarrow> color" where
  "colorOfHsl h s l =
     \<lparr>rgb = \<lparr>rgb_r = 0, rgb_g = 0, rgb_b = 0\<rparr>,
      hsl = \<lparr>hsl_h = h, hsl_s = s, hsl_l = l\<rparr>,
      confidence = 1, dominantColors = [], isPattern = False,
      pixelCount = 0, filteredCount = 0\<rparr>"

text \<open>Two saturated colours 160 degrees apart, with no neutral beside them.\<close>

definition boldOpposites :: "color list" where
  "boldOpposites = [colorOfHsl 0 80 50, colorOfHsl 160 80 50]"

text \<open>Three colours at hues 0, 120 and 240, each with saturation 60 and lightness 50.\<close>

definition triadExample :: "color list" where
  "triadExample = [colorOfHsl 0 60 50, colorOfHsl 120 60 50, colorOfHsl 240 60 50]"

text \<open>
  Three chromatic colours in one hue family whose average pairwise lightness contrast is
  38, whose saturations span 35 and average 45: the centres of the three bell curves.
\<close>

definition tunedOutfit :: "color list" where
  "tunedOutfit = [colorOfHsl 200 25 10, colorOfHsl 210 60 67, colorOfHsl 220 50 48]"

section \<open>Trimmed mean\<close>

text \<open>
  \<open>xs.slice(a, b)\<close> for \<open>0 \<le> a\<close> and \<open>0 \<le> b\<close>: the elements at positions \<open>a\<close> up
  to \<open>b - 1\<close>, none when \<open>b \<le> a\<close>.
\<close>

definition slice :: "'a list \<Rightarrow> nat \<Rightarrow> nat \<Rightarrow> 'a list" where
  "slice xs a b = take (b - a) (drop a xs)"

text \<open>\<open>GarmentDetection._trimmedMean\<close>.\<close>

definition GarmentDetection_trimmedMean :: "int list \<Rightarrow> int" where
  "GarmentDetection_trimmedMean values =
     (if length values = 0 then 128
      else
        let sorted = sort values;
            trim = nat (Math_floor (real (length sorted) * 0.1));
            trimmed = slice sorted trim (length sorted - trim)
        in if length trimmed = 0 then sorted ! (length sorted div 2)
           else Math_round (real_of_int (sum_list trimmed) / real (length trimmed)))"

text \<open>
  The local function \<open>trimmedMean\<close> inside \<open>ColorAnalysis.extractAverageColor\<close>. It
  has no test for the empty array, where \<open>sorted[0]\<close> is \<open>undefined\<close>: \<open>None\<close> here.
\<close>

definition trimmedMean :: "int list \<Rightarrow> int option" where
  "trimmedMean arr =
     (let sorted = sort arr;
          trimCount = nat (Math_floor (real (length sorted) * 0.1));
          trimmed = slice sorted trimCount (length sorted - trimCount)
      in if length trimmed = 0
         then (if length sorted div 2 < length sorted
               then Some (sorted ! (length sorted div 2)) else None)
         else Some (Math_round (real_of_int (sum_list trimmed) / real (length trimmed))))"

text \<open>
  The remainder in the words of the specification: sort ascending, then drop a tenth of
  the length, rounded down, from each end.
\<close>

definition dropEnd :: "nat \<Rightarrow> 'a list \<Rightarrow> 'a list" where
  "dropEnd k xs = take (length xs - k) xs"

definition trimmedRemainder :: "int list \<Rightarrow> int list" where
  "trimmedRemainder xs =
     (let k = length xs div 10
      in dropEnd k (drop k (sort xs)))"

section \<open>Canvas and pixel sampling\<close>

text \<open>
  A canvas: its size and, for column \<open>x\<close> and row \<open>y\<close>, the colour and the alpha
  byte of the pixel there.
\<close>

record canvas =
  canvas_width :: int
  canvas_height :: int
  canvas_pixel :: "int \<Rightarrow> int \<Rightarrow> rgb \<times> int"

text \<open>
  \<open>ctx.getImageData(x, y, w, h).data\<close>, one entry per pixel (four bytes in the
  source), row by row.
\<close>

definition getImageData :: "canvas \<Rightarrow> int \<Rightarrow> int \<Rightarrow> int \<Rightarrow> int \<Rightarrow> (rgb \<times> int) list" where
  "getImageData cv x y w h =
     concat (map (\<lambda>j. map (\<lambda>i. canvas_pixel cv i j) [x..x + w - 1]) [y..y + h - 1])"

text \<open>
  The loop \<open>for (i = 0; i < data.length; i += 16)\<close> visits every fourth pixel of the
  data, starting with the first.
\<close>

definition everyFourth :: "'a list \<Rightarrow> 'a list" where
  "everyFourth xs = map (\<lambda>k. xs ! (4 * k)) [0..<(length xs + 3) div 4]"

record rect =
  rect_x :: real
  rect_y :: real
  rect_width :: real
  rect_height :: real

text \<open>The rectangle clamped to the canvas, as \<open>_getPixelData\<close> computes it.\<close>

definition clampRect :: "canvas \<Rightarrow> rect \<Rightarrow> int \<times> int \<times> int \<times> int" where
  "clampRect cv rect =
     (let x = max 0 (Math_round (rect_x rect));
          y = max 0 (Math_round (rect_y rect));
          w = min (Math_round (rect_width rect)) (canvas_width cv - x);
          h = min (Math_round (rect_height rect)) (canvas_height cv - y)
      in (x, y, w, h))"

definition GarmentDetection_getPixelData :: "canvas \<Rightarrow> rect \<Rightarrow> rgb list" where
  "GarmentDetection_getPixelData cv rect =
     (case clampRect cv rect of (x, y, w, h) \<Rightarrow>
        if w \<le> 0 \<or> h \<le> 0 then []
        else map fst (filter (\<lambda>p. \<not> snd p < 128) (everyFourth (getImageData cv x y w h))))"

section \<open>Skin filter\<close>

record skinRange =
  hMin :: int
  hMax :: int
  sMin :: int
  sMax :: int
  lMin :: int
  lMax :: int

definition skinRanges :: "skinRange list" where
  "skinRanges =
     [\<lparr>hMin = 5, hMax = 45, sMin = 15, sMax = 70, lMin = 20, lMax = 80\<rparr>,
      \<lparr>hMin = 15, hMax = 40, sMin = 20, sMax = 60, lMin = 10, lMax = 50\<rparr>]"

definition GarmentDetection_isSkinColor :: "rgb \<Rightarrow> bool" where
  "GarmentDetection_isSkinColor pixel =
     (let c = rgbToHsl (rgb_r pixel) (rgb_g pixel) (rgb_b pixel)
      in \<exists>range \<in> set skinRanges.
           hsl_h c \<ge> hMin range \<and> hsl_h c \<le> hMax range \<and>
           hsl_s c \<ge> sMin range \<and> hsl_s c \<le> sMax range \<and>
           hsl_l c \<ge> lMin range \<and> hsl_l c \<le> lMax range)"

definition GarmentDetection_rejectSkinPixels :: "rgb list \<Rightarrow> rgb list" where
  "GarmentDetection_rejectSkinPixels pixels =
     filter (\<lambda>px. \<not> GarmentDetection_isSkinColor px) pixels"

section \<open>Dominant colours\<close>

definition GarmentDetection_getDominantFromPixels :: "rgb list \<Rightarrow> rgb" where
  "GarmentDetection_getDominantFromPixels pixels =
     (if length pixels = 0 then \<lparr>rgb_r = 128, rgb_g = 128, rgb_b = 128\<rparr>
      else \<lparr>rgb_r = GarmentDetection_trimmedMean (map rgb_r pixels),
            rgb_g = GarmentDetection_trimmedMean (map rgb_g pixels),
            rgb_b = GarmentDetection_trimmedMean (map rgb_b pixels)\<rparr>)"

text \<open>
  The buckets are kept in a \<open>Map\<close>, which iterates in the order of first insertion: an
  association list here. The key is the triple of the channels shifted right by four
  bits, that is, divided by 16.
\<close>

record bucket =
  b_count :: nat
  totalR :: int
  totalG :: int
  totalB :: int

definition bucketKey :: "rgb \<Rightarrow> int \<times> int \<times> int" where
  "bucketKey px = (rgb_r px div 16, rgb_g px div 16, rgb_b px div 16)"

fun addToBuckets :: "rgb \<Rightarrow> ((int \<times> int \<times> int) \<times> bucket) list \<Rightarrow> ((int \<times> int \<times> int) \<times> bucket) list" where
  "addToBuckets px [] =
     [(bucketKey px, \<lparr>b_count = 1, totalR = rgb_r px, totalG = rgb_g px, totalB = rgb_b px\<rparr>)]"
| "addToBuckets px ((k, b) # rest) =
     (if k = bucketKey px
      then (k, \<lparr>b_count = b_count b + 1, totalR = totalR b + rgb_r px,
                totalG = totalG b + rgb_g px, totalB = totalB b + rgb_b px\<rparr>) # rest
      else (k, b) # addToBuckets px rest)"

definition GarmentDetection_getDominantColorsFromPixels :: "rgb list \<Rightarrow> nat \<Rightarrow> dominantColor list" where
  "GarmentDetection_getDominantColorsFromPixels pixels n =
     (if length pixels = 0 then []
      else
        let buckets = fold addToBuckets pixels [];
            sorted = sort_key (\<lambda>b. - int (b_count b)) (map snd buckets)
        in map (\<lambda>b.
                 let c = \<lparr>rgb_r = Math_round (real_of_int (totalR b) / real (b_count b)),
                          rgb_g = Math_round (real_of_int (totalG b) / real (b_count b)),
                          rgb_b = Math_round (real_of_int (totalB b) / real (b_count b))\<rparr>
                 in \<lparr>d_rgb = c, d_hsl = rgbToHsl (rgb_r c) (rgb_g c) (rgb_b c),
                     frequency = real (b_count b) / real (length pixels)\<rparr>)
               (slice sorted 0 n))"

definition GarmentDetection_isPattern :: "dominantColor list \<Rightarrow> bool" where
  "GarmentDetection_isPattern dcs =
     (if length dcs < 2 then False
      else
        let c1 = dcs ! 0;
            c2 = dcs ! 1
        in if frequency c1 < 0.25 \<or> frequency c2 < 0.15 then False
           else
             let hueDiff = hueDifference (hsl_h (d_hsl c1)) (hsl_h (d_hsl c2));
                 lightDiff = \<bar>hsl_l (d_hsl c1) - hsl_l (d_hsl c2)\<bar>;
                 satDiff = \<bar>hsl_s (d_hsl c1) - hsl_s (d_hsl c2)\<bar>
             in hueDiff > 25 \<or> lightDiff > 25 \<or> satDiff > 30)"

definition GarmentDetection_calculateConfidence :: "rgb list \<Rightarrow> rgb list \<Rightarrow> rgb \<Rightarrow> real" where
  "GarmentDetection_calculateConfidence allPixels filteredPixels dominantColor =
     (if length allPixels = 0 then 0
      else
        let survivalRate = real (length filteredPixels) / real (length allPixels);
            c1 = min 1 (survivalRate / 0.5) * 0.4;
            samplePixels = (if length filteredPixels > 0 then filteredPixels else allPixels);
            sample = slice samplePixels 0 200;
            c2 = (if length sample > 0
                  then
                    let totalDist = sum_list (map (\<lambda>px. sqrt (
                            (real_of_int (rgb_r px - rgb_r dominantColor))\<^sup>2
                          + (real_of_int (rgb_g px - rgb_g dominantColor))\<^sup>2
                          + (real_of_int (rgb_b px - rgb_b dominantColor))\<^sup>2)) sample);
                        avgDist = totalDist / real (length sample);
                        consistencyScore = max 0 (1 - avgDist / 150)
                    in c1 + consistencyScore * 0.4
                  else c1);
            pixelScore = min 1 (real (length samplePixels) / 100);
            c3 = c2 + pixelScore * 0.2
        in real_of_int (Math_round (c3 * 100)) / 100)"

section \<open>Zones\<close>

text \<open>
  A zone \<open>{x, y, width, height, label, samplingRect}\<close>; the sampling rectangle may be
  absent, and the label is left out.
\<close>

record zone =
  zone_x :: real
  zone_y :: real
  zone_width :: real
  zone_height :: real
  samplingRect :: "rect option"

definition zoneRect :: "zone \<Rightarrow> rect" where
  "zoneRect z =
     (case samplingRect z of
        Some r \<Rightarrow> r
      | None \<Rightarrow> \<lparr>rect_x = zone_x z, rect_y = zone_y z,
                  rect_width = zone_width z, rect_height = zone_height z\<rparr>)"

text \<open>The body of the loop of \<open>extractZoneColors\<close>, for one zone.\<close>

definition extractZoneColor :: "canvas \<Rightarrow> zone \<Rightarrow> color" where
  "extractZoneColor cv z =
     (let pixelData = GarmentDetection_getPixelData cv (zoneRect z);
          filtered = GarmentDetection_rejectSkinPixels pixelData;
          dominant = GarmentDetection_getDominantFromPixels
                       (if length filtered > 0 then filtered else pixelData);
          dominantColors = GarmentDetection_getDominantColorsFromPixels
                       (if length filtered > 0 then filtered else pixelData) 3;
          confidence = GarmentDetection_calculateConfidence pixelData filtered dominant
      in \<lparr>rgb = dominant,
          hsl = rgbToHsl (rgb_r dominant) (rgb_g dominant) (rgb_b dominant),
          confidence = confidence,
          dominantColors = dominantColors,
          isPattern = GarmentDetection_isPattern dominantColors,
          pixelCount = length pixelData,
          filteredCount = length filtered\<rparr>)"

text \<open>
  \<open>extractZoneColors\<close>: the zones object is a list of keys with their zones, and the
  result has a colour record under each key.
\<close>

definition extractZoneColors :: "canvas \<Rightarrow> (string \<times> zone) list \<Rightarrow> (string \<times> color) list" where
  "extractZoneColors cv zones = map (\<lambda>(key, z). (key, extractZoneColor cv z)) zones"

text \<open>The neutral gray returned when there is no pixel, and the record built from it.\<close>

definition sentinel :: rgb where
  "sentinel = \<lparr>rgb_r = 128, rgb_g = 128, rgb_b = 128\<rparr>"

definition sentinelColor :: color where
  "sentinelColor =
     \<lparr>rgb = sentinel, hsl = \<lparr>hsl_h = 0, hsl_s = 0, hsl_l = 50\<rparr>, confidence = 0,
      dominantColors = [], isPattern = False, pixelCount = 0, filteredCount = 0\<rparr>"

text \<open>The clamped rectangle is empty; every pixel of the clamped rectangle is transparent.\<close>

definition emptyRegion :: "canvas \<Rightarrow> rect \<Rightarrow> bool" where
  "emptyRegion cv rect = (case clampRect cv rect of (x, y, w, h) \<Rightarrow> w \<le> 0 \<or> h \<le> 0)"

definition transparentRegion :: "canvas \<Rightarrow> rect \<Rightarrow> bool" where
  "transparentRegion cv rect =
     (case clampRect cv rect of (x, y, w, h) \<Rightarrow>
        \<forall>p \<in> set (getImageData cv x y w h). snd p < 128)"

text \<open>An 8 by 10 canvas whose pixels are all fully transparent, and three zones on it.\<close>

definition clearCanvas :: canvas where
  "clearCanvas = \<lparr>canvas_width = 8, canvas_height = 10,
                   canvas_pixel = (\<lambda>x y. (\<lparr>rgb_r = 0, rgb_g = 0, rgb_b = 0\<rparr>, 0))\<rparr>"

definition bandZone :: "real \<Rightarrow> real \<Rightarrow> zone" where
  "bandZone y h =
     \<lparr>zone_x = 0, zone_y = y, zone_width = 8, zone_height = h,
      samplingRect = Some \<lparr>rect_x = 2, rect_y = y, rect_width = 4, rect_height = h\<rparr>\<rparr>"

text \<open>A zone whose sampling rectangle starts right of the canvas.\<close>

definition outsideZone :: zone where
  "outsideZone =
     \<lparr>zone_x = 0, zone_y = 0, zone_width = 8, zone_height = 3,
      samplingRect = Some \<lparr>rect_x = 20, rect_y = 0, rect_width = 4, rect_height = 3\<rparr>\<rparr>"

text \<open>Dominant colours with the given frequency, hue, saturation and lightness.\<close>

definition dominantOf :: "real \<Rightarrow> int \<Rightarrow> int \<Rightarrow> int \<Rightarrow> dominantColor" where
  "dominantOf f h s l =
     \<lparr>d_rgb = \<lparr>rgb_r = 0, rgb_g = 0, rgb_b = 0\<rparr>,
      d_hsl = \<lparr>hsl_h = h, hsl_s = s, hsl_l = l\<rparr>, frequency = f\<rparr>"

section \<open>Floating point\<close>

text \<open>
  \<open>_detectBodyColumn\<close> keeps its per-column values in \<open>Float32Array\<close>s and compares a
  quotient of sums of them with 3, so what it returns depends on how each operation
  rounds. Its model therefore rounds where the source rounds, and takes the two roundings
  as a parameter: \<open>dbl\<close> rounds the exact result of an arithmetic operation, or a decimal
  literal, to a double; \<open>f32\<close> rounds a value stored into a \<open>Float32Array\<close> to single
  precision. All values are rational numbers.
\<close>

record fp =
  dbl :: "rat \<Rightarrow> rat"
  f32 :: "rat \<Rightarrow> rat"

text \<open>
  The roundings of IEEE 754: to the nearest number with \<open>p\<close> significant bits, a tie
  going to the one whose last bit is even. \<open>binaryExponent x\<close> is the \<open>e\<close> with
  \<open>2\<^sup>e \<le> \<bar>x\<bar> < 2\<^sup>e\<^sup>+\<^sup>1\<close>. The exponent range is not limited: from bytes, no
  intermediate value of \<open>_detectBodyColumn\<close> is large enough to overflow or, unless it
  is zero, small enough to be subnormal.
\<close>

definition roundTiesToEven :: "rat \<Rightarrow> int" where
  "roundTiesToEven q =
     (let f = \<lfloor>q\<rfloor>;
          r = q - of_int f
      in if r < 1 / 2 then f
         else if r > 1 / 2 then f + 1
         else if even f then f else f + 1)"

definition binaryExponent :: "rat \<Rightarrow> int" where
  "binaryExponent x =
     (case quotient_of \<bar>x\<bar> of (a, b) \<Rightarrow>
        let d = bitlen a - bitlen b
        in if 2 powi d \<le> \<bar>x\<bar> then d else d - 1)"

definition binaryRound :: "nat \<Rightarrow> rat \<Rightarrow> rat" where
  "binaryRound p x =
     (if x = 0 then 0
      else
        let u = 2 powi (binaryExponent x - int p + 1)
        in of_int (roundTiesToEven (x / u)) * u)"

definition ieee :: fp where
  "ieee = \<lparr>dbl = binaryRound 53, f32 = binaryRound 24\<rparr>"

section \<open>Body column detection\<close>

text \<open>The strip of \<open>_detectBodyColumn\<close>: it starts at 30% of the height and is 40% high.\<close>

definition stripY :: "canvas \<Rightarrow> int" where
  "stripY cv = Math_floor (real_of_int (canvas_height cv) * 0.3)"

definition stripH :: "canvas \<Rightarrow> int" where
  "stripH cv = Math_floor (real_of_int (canvas_height cv) * 0.4)"

text \<open>The rows \<open>y = 0, 4, 8, \<dots>\<close> below \<open>stripH\<close> that the inner loop visits.\<close>

definition sampledRows :: "int \<Rightarrow> int list" where
  "sampledRows h = map (\<lambda>k. 4 * k) [0..(h - 1) div 4]"

text \<open>
  \<open>data[idx] * 0.299 + data[idx + 1] * 0.587 + data[idx + 2] * 0.114\<close>: three products
  and two sums, evaluated from the left.
\<close>

definition luminance :: "fp \<Rightarrow> rgb \<Rightarrow> rat" where
  "luminance fl p =
     dbl fl (dbl fl (dbl fl (of_int (rgb_r p) * dbl fl 0.299)
                     + dbl fl (of_int (rgb_g p) * dbl fl 0.587))
             + dbl fl (of_int (rgb_b p) * dbl fl 0.114))"

text \<open>
  \<open>columnBrightness[x]\<close>: the loop adds the luminance of each sampled row to \<open>sum\<close>,
  starting from 0, and the quotient is stored in a \<open>Float32Array\<close>. \<open>data\<close> is the
  image data of the strip, and the pixel read is number \<open>y * width + x\<close> of it.
\<close>

definition columnBrightness :: "fp \<Rightarrow> canvas \<Rightarrow> int \<Rightarrow> rat" where
  "columnBrightness fl cv x =
     (let width = canvas_width cv;
          data = getImageData cv 0 (stripY cv) width (stripH cv);
          rows = sampledRows (stripH cv);
          sum = fold (\<lambda>y sum. dbl fl (sum + luminance fl (fst (data ! nat (y * width + x)))))
                  rows 0;
          count = length rows
      in f32 fl (if count > 0 then dbl fl (sum / of_nat count) else 128))"

text \<open>
  \<open>edgeStrength[x]\<close>, a \<open>Float32Array\<close> too; it stays 0 at the first and the last
  column.
\<close>

definition edgeStrength :: "fp \<Rightarrow> canvas \<Rightarrow> int \<Rightarrow> rat" where
  "edgeStrength fl cv x =
     (if 1 \<le> x \<and> x < canvas_width cv - 1
      then f32 fl \<bar>dbl fl (columnBrightness fl cv (x + 1) - columnBrightness fl cv (x - 1))\<bar>
      else 0)"

definition windowSize :: "canvas \<Rightarrow> int" where
  "windowSize cv = Math_floor (real_of_int (canvas_width cv) * 0.5)"

text \<open>
  The sliding window. The first loop adds the edge strengths of the first window to
  \<open>currentSum\<close>, starting from 0. The second loop moves the window one column at a time
  with one subtraction and one addition; its state is \<open>(currentSum, maxSum, maxStart)\<close>.
\<close>

definition firstWindow :: "fp \<Rightarrow> canvas \<Rightarrow> rat" where
  "firstWindow fl cv =
     fold (\<lambda>i currentSum. dbl fl (currentSum + edgeStrength fl cv i)) [0..windowSize cv - 1] 0"

definition slideStep :: "fp \<Rightarrow> canvas \<Rightarrow> int \<Rightarrow> rat \<times> rat \<times> int \<Rightarrow> rat \<times> rat \<times> int" where
  "slideStep fl cv i st =
     (case st of (currentSum, maxSum, maxStart) \<Rightarrow>
        let currentSum' = dbl fl (dbl fl (currentSum - edgeStrength fl cv (i - 1))
                                  + edgeStrength fl cv (i + windowSize cv - 1))
        in if currentSum' > maxSum then (currentSum', currentSum', i)
           else (currentSum', maxSum, maxStart))"

definition slideWindow :: "fp \<Rightarrow> canvas \<Rightarrow> rat \<times> rat \<times> int" where
  "slideWindow fl cv =
     fold (slideStep fl cv) [1..canvas_width cv - windowSize cv]
       (firstWindow fl cv, firstWindow fl cv, 0)"

definition maxSum :: "fp \<Rightarrow> canvas \<Rightarrow> rat" where
  "maxSum fl cv = fst (snd (slideWindow fl cv))"

definition maxStart :: "fp \<Rightarrow> canvas \<Rightarrow> int" where
  "maxStart fl cv = snd (snd (slideWindow fl cv))"

definition avgEdge :: "fp \<Rightarrow> canvas \<Rightarrow> rat" where
  "avgEdge fl cv = dbl fl (maxSum fl cv / of_int (windowSize cv))"

text \<open>\<open>_detectBodyColumn\<close>: \<open>None\<close> is \<open>null\<close>, \<open>Some (x, w)\<close> is \<open>{x, width: w}\<close>.\<close>

definition GarmentDetection_detectBodyColumn :: "fp \<Rightarrow> canvas \<Rightarrow> (int \<times> int) option" where
  "GarmentDetection_detectBodyColumn fl cv =
     (let width = canvas_width cv
      in if stripH cv < 10 \<or> width < 20 then None
         else if windowSize cv < 10 then None
         else if avgEdge fl cv < 3 then None
         else
           let padding = Math_floor (real_of_int width * 0.05);
               resultX = max 0 (maxStart fl cv - padding);
               resultW = min (width - resultX) (windowSize cv + padding * 2)
           in Some (resultX, resultW))"

text \<open>
  The values that \<open>currentSum\<close> takes, one for each position of the window: after the
  first loop, and after each round of the second.
\<close>

fun runningSums :: "fp \<Rightarrow> canvas \<Rightarrow> rat \<Rightarrow> int list \<Rightarrow> rat list" where
  "runningSums fl cv currentSum [] = [currentSum]"
| "runningSums fl cv currentSum (i # is) =
     currentSum # runningSums fl cv (dbl fl (dbl fl (currentSum - edgeStrength fl cv (i - 1))
                                             + edgeStrength fl cv (i + windowSize cv - 1))) is"

definition windowSums :: "fp \<Rightarrow> canvas \<Rightarrow> rat list" where
  "windowSums fl cv =
     runningSums fl cv (firstWindow fl cv) [1..canvas_width cv - windowSize cv]"

text \<open>
  Canvases of a single opaque colour, of any size; a canvas 20 wide and 25 high with
  black and white vertical stripes two columns wide; and a canvas 20 wide and 25 high
  whose left half has one colour and whose right half another, the exact luminances of the
  two being 114.01 and 129.01.
\<close>

definition plainCanvas :: "int \<Rightarrow> int \<Rightarrow> canvas" where
  "plainCanvas w h = \<lparr>canvas_width = w, canvas_height = h,
                      canvas_pixel = (\<lambda>x y. (\<lparr>rgb_r = 90, rgb_g = 120, rgb_b = 200\<rparr>, 255))\<rparr>"

definition stripedCanvas :: canvas where
  "stripedCanvas = \<lparr>canvas_width = 20, canvas_height = 25,
                     canvas_pixel = (\<lambda>x y. if x mod 4 < 2
                                          then (\<lparr>rgb_r = 255, rgb_g = 255, rgb_b = 255\<rparr>, 255)
                                          else (\<lparr>rgb_r = 0, rgb_g = 0, rgb_b = 0\<rparr>, 255))\<rparr>"

definition stepCanvas :: canvas where
  "stepCanvas = \<lparr>canvas_width = 20, canvas_height = 25,
     canvas_pixel = (\<lambda>x y. if x < 10 then (\<lparr>rgb_r = 235, rgb_g = 25, rgb_b = 255\<rparr>, 255)
                            else (\<lparr>rgb_r = 40, rgb_g = 166, rgb_b = 172\<rparr>, 255))\<rparr>"

text \<open>Exact arithmetic: no rounding at all.\<close>

definition exactFp :: fp where
  "exactFp = \<lparr>dbl = (\<lambda>x. x), f32 = (\<lambda>x. x)\<rparr>"

section \<open>Scoring: helpers and grade\<close>

definition Scoring_hueDiff :: "int \<Rightarrow> int \<Rightarrow> int" where
  "Scoring_hueDiff h1 h2 = (let d = \<bar>h1 - h2\<bar> in min d (360 - d))"

definition Scoring_isNeutral :: "color \<Rightarrow> bool" where
  "Scoring_isNeutral c \<longleftrightarrow> hsl_s (hsl c) < 12"

definition Scoring_isWarmHue :: "int \<Rightarrow> bool" where
  "Scoring_isWarmHue h \<longleftrightarrow> (h \<ge> 0 \<and> h < 70) \<or> h \<ge> 300"

definition Scoring_isCoolHue :: "int \<Rightarrow> bool" where
  "Scoring_isCoolHue h \<longleftrightarrow> h \<ge> 170 \<and> h < 300"

text \<open>
  \<open>getGrade\<close> returns \<open>{letter, color, description}\<close>; the CSS class and the
  description are fixed per letter and only the letter is modelled.
\<close>

definition getGrade :: "int \<Rightarrow> string" where
  "getGrade score =
     (if score \<ge> 95 then ''S''
      else if score \<ge> 90 then ''A+''
      else if score \<ge> 85 then ''A''
      else if score \<ge> 80 then ''B+''
      else if score \<ge> 75 then ''B''
      else if score \<ge> 70 then ''C+''
      else if score \<ge> 65 then ''C''
      else if score \<ge> 58 then ''D+''
      else if score \<ge> 50 then ''D''
      else if score \<ge> 40 then ''E''
      else ''F'')"

text \<open>The eleven tiers, best first, each with the lowest score that reaches it.\<close>

definition gradeTiers :: "(string \<times> int) list" where
  "gradeTiers =
     [(''S'', 95), (''A+'', 90), (''A'', 85), (''B+'', 80), (''B'', 75), (''C+'', 70),
      (''C'', 65), (''D+'', 58), (''D'', 50), (''E'', 40)]"

section \<open>Scoring: outfit score\<close>

definition Scoring_bellCurve :: "real \<Rightarrow> real \<Rightarrow> real \<Rightarrow> real" where
  "Scoring_bellCurve v center spread = exp (- 0.5 * ((v - center) / spread)\<^sup>2)"

definition Scoring_pairwiseContrasts :: "color list \<Rightarrow> int list" where
  "Scoring_pairwiseContrasts colors = pairwise (\<lambda>a b. \<bar>hsl_l (hsl a) - hsl_l (hsl b)\<bar>) colors"

text \<open>
  A breakdown item \<open>{category, points, max, detail}\<close> and the score result
  \<open>{total, breakdown}\<close>. \<open>points\<close> and \<open>total\<close> are JavaScript numbers that are
  either an integer or NaN: \<open>Some n\<close> is the integer \<open>n\<close> and \<open>None\<close> is NaN. The
  category is given without its emoji prefix, and the \<open>detail\<close> text is left out.
\<close>

record item =
  category :: string
  points :: "int option"
  max_points :: int

record scoreResult =
  total :: "int option"
  breakdown :: "item list"

text \<open>
  \<open>colors.reduce((s, c) => s + c.hsl.s, 0) / colors.length\<close>, which is \<open>0 / 0\<close>, that
  is NaN, on the empty list.
\<close>

definition averageOrNaN :: "int list \<Rightarrow> real option" where
  "averageOrNaN xs = (if xs = [] then None else Some (average xs))"

text \<open>A comparison \<open>x > c\<close> of a number that may be NaN: false on NaN.\<close>

definition gtNaN :: "real option \<Rightarrow> real \<Rightarrow> bool" where
  "gtNaN x c = (case x of None \<Rightarrow> False | Some v \<Rightarrow> v > c)"

text \<open>
  The standard deviation of the lightnesses,
  \<open>Math.sqrt(ls.reduce((s, l) => s + Math.pow(l - mean, 2), 0) / ls.length)\<close>; NaN on the
  empty list.
\<close>

definition lightStdDev :: "int list \<Rightarrow> real option" where
  "lightStdDev ls =
     (if ls = [] then None
      else Some (sqrt (sum_list (map (\<lambda>l. (real_of_int l - average ls)\<^sup>2) ls)
                       / real (length ls))))"

text \<open>Addition of numbers that may be NaN.\<close>

definition addNaN :: "int option \<Rightarrow> int option \<Rightarrow> int option" where
  "addNaN a b = (case a of None \<Rightarrow> None | Some x \<Rightarrow> (case b of None \<Rightarrow> None | Some y \<Rightarrow> Some (x + y)))"

text \<open>
  \<open>calculateOutfitScore\<close> computes six point values in six consecutive blocks and adds
  each to the running score. Every block is a definition here, named after the variable
  that holds its points.
\<close>

text \<open>1. Color Harmony (30 pts).\<close>

definition harmonyPoints :: "harmony \<Rightarrow> int" where
  "harmonyPoints harmonyResult = Math_round (real_of_int (harmony_score harmonyResult) * 0.30)"

text \<open>2. Contrast Balance (18 pts).\<close>

definition contrastPoints :: "color list \<Rightarrow> int" where
  "contrastPoints colors =
     (let contrasts = Scoring_pairwiseContrasts colors
      in if length contrasts > 0
         then Math_round (Scoring_bellCurve (average contrasts) 38 18 * 18)
         else 0)"

text \<open>
  3. Color Intensity (15 pts). On the empty list \<open>Math.max(...[]) - Math.min(...[])\<close> is
  minus infinity, whose bell curve is \<open>exp(-Infinity) = 0\<close>, and the average saturation
  is NaN, so the points are NaN.
\<close>

definition avgSat :: "color list \<Rightarrow> real option" where
  "avgSat colors = averageOrNaN (map (\<lambda>c. hsl_s (hsl c)) colors)"

definition satVarScore :: "color list \<Rightarrow> real" where
  "satVarScore colors =
     (if colors = [] then 0
      else Scoring_bellCurve
             (real_of_int (Math_max (map (\<lambda>c. hsl_s (hsl c)) colors)
                           - Math_min (map (\<lambda>c. hsl_s (hsl c)) colors))) 35 20 * 8)"

definition intensityPoints :: "color list \<Rightarrow> int option" where
  "intensityPoints colors =
     (case avgSat colors of
        None \<Rightarrow> None
      | Some a \<Rightarrow> Some (Math_round (satVarScore colors + Scoring_bellCurve a 45 25 * 7)))"

text \<open>4. Warm/Cool Coherence (12 pts).\<close>

definition chromaticColors :: "color list \<Rightarrow> color list" where
  "chromaticColors colors = filter (\<lambda>c. \<not> Scoring_isNeutral c) colors"

definition warmOf :: "color list \<Rightarrow> nat" where
  "warmOf cs = length (filter (\<lambda>c. Scoring_isWarmHue (hsl_h (hsl c))) cs)"

definition coolOf :: "color list \<Rightarrow> nat" where
  "coolOf cs = length (filter (\<lambda>c. Scoring_isCoolHue (hsl_h (hsl c))) cs)"

definition coherencePoints :: "color list \<Rightarrow> int" where
  "coherencePoints colors =
     (if length (chromaticColors colors) \<ge> 2
      then (let warmCount = warmOf (chromaticColors colors);
                coolCount = coolOf (chromaticColors colors);
                dominance = real (max warmCount coolCount) / real (length (chromaticColors colors))
            in if dominance = 1 then 12
               else if dominance \<ge> 0.66 then 8
               else 4)
      else 10)"

text \<open>5. Neutral Anchoring (10 pts).\<close>

definition anchorPoints :: "color list \<Rightarrow> int" where
  "anchorPoints colors =
     (let neutralCount = length (filter Scoring_isNeutral colors)
      in if neutralCount = 1 \<and> length (chromaticColors colors) \<ge> 1 then 10
         else if neutralCount = 2 \<and> length colors = 3 then 7
         else if neutralCount = 0 \<and> gtNaN (avgSat colors) 50 then 5
         else if neutralCount = length colors then 8
         else 6)"

text \<open>
  6. Professional Polish (15 pts): 15, less the penalties, plus at most one bonus,
  clamped to 0..15.
\<close>

definition polishPoints :: "color list \<Rightarrow> harmony \<Rightarrow> int" where
  "polishPoints colors harmonyResult =
     (let p0 = (15 :: int);
          p1 = (if harmony_type harmonyResult = ''Color Clash'' then p0 - 8 else p0);
          highSatCount = length (filter (\<lambda>c. hsl_s (hsl c) > 75) colors);
          p2 = (if highSatCount \<ge> 3 then p1 - 5 else p1);
          warmC = warmOf (chromaticColors colors);
          coolC = coolOf (chromaticColors colors);
          p3 = (if length (chromaticColors colors) \<ge> 2 \<and> warmC > 0 \<and> coolC > 0
                   \<and> \<bar>int warmC - int coolC\<bar> \<le> 1
                then p2 - 4 else p2);
          p4 = (if gtNaN (lightStdDev (map (\<lambda>c. hsl_l (hsl c)) colors)) 30 then p3 - 3 else p3);
          p5 = (if harmony_type harmonyResult = ''Analogous'' then p4 + 3
                else if harmony_type harmonyResult = ''Complementary'' then p4 + 2
                else if harmony_type harmonyResult = ''Monochromatic''
                        \<and> length (chromaticColors colors) \<ge> 2
                then p4 + 2
                else p4)
      in max 0 (min 15 p5))"

text \<open>
  The running score after the six additions, and the result. \<open>Math.round\<close> of the
  score changes nothing, the score being an integer or NaN; \<open>Math.min\<close> and
  \<open>Math.max\<close> return NaN on NaN.
\<close>

definition calculateOutfitScore :: "color list \<Rightarrow> harmony \<Rightarrow> scoreResult" where
  "calculateOutfitScore colors harmonyResult =
     (let score = addNaN (addNaN (addNaN (addNaN (addNaN (addNaN (Some 0)
                    (Some (harmonyPoints harmonyResult)))
                    (Some (contrastPoints colors)))
                    (intensityPoints colors))
                    (Some (coherencePoints colors)))
                    (Some (anchorPoints colors)))
                    (Some (polishPoints colors harmonyResult))
      in \<lparr>total = (case score of None \<Rightarrow> None | Some v \<Rightarrow> Some (max 0 (min 100 v))),
          breakdown =
            [\<lparr>category = ''Color Harmony'', points = Some (harmonyPoints harmonyResult),
              max_points = 30\<rparr>,
             \<lparr>category = ''Contrast Balance'', points = Some (contrastPoints colors),
              max_points = 18\<rparr>,
             \<lparr>category = ''Color Intensity'', points = intensityPoints colors,
              max_points = 15\<rparr>,
             \<lparr>category = ''Warm/Cool Coherence'', points = Some (coherencePoints colors),
              max_points = 12\<rparr>,
             \<lparr>category = ''Neutral Anchoring'', points = Some (anchorPoints colors),
              max_points = 10\<rparr>,
             \<lparr>category = ''Professional Polish'', points = Some (polishPoints colors harmonyResult),
              max_points = 15\<rparr>]\<rparr>)"

text \<open>The sum of the breakdown items' points, NaN as soon as one of them is NaN.\<close>

definition sumPoints :: "item list \<Rightarrow> int option" where
  "sumPoints items = fold (\<lambda>it acc. addNaN acc (points it)) items (Some 0)"

section \<open>Grades\<close>

text \<open>
  Claim C9. \<open>getGrade\<close> is a lookup over eleven tiers with distinct letters. A score
  gets the letter of a tier exactly when it is at least that tier's lower bound and below
  the lower bound of the tier above, so every lower bound is inclusive; below 40 the
  letter is F. In particular 95 gives S, 94 gives A+ and 39 gives F.
\<close>

theorem getGrade_tiers:
  "getGrade 95 = ''S'' \<and> getGrade 94 = ''A+'' \<and> getGrade 39 = ''F''
   \<and> (getGrade s = ''S'' \<longleftrightarrow> 95 \<le> s)
   \<and> (getGrade s = ''A+'' \<longleftrightarrow> 90 \<le> s \<and> s < 95)
   \<and> (getGrade s = ''A'' \<longleftrightarrow> 85 \<le> s \<and> s < 90)
   \<and> (getGrade s = ''B+'' \<longleftrightarrow> 80 \<le> s \<and> s < 85)
   \<and> (getGrade s = ''B'' \<longleftrightarrow> 75 \<le> s \<and> s < 80)
   \<and> (getGrade s = ''C+'' \<longleftrightarrow> 70 \<le> s \<and> s < 75)
   \<and> (getGrade s = ''C'' \<longleftrightarrow> 65 \<le> s \<and> s < 70)
   \<and> (getGrade s = ''D+'' \<longleftrightarrow> 58 \<le> s \<and> s < 65)
   \<and> (getGrade s = ''D'' \<longleftrightarrow> 50 \<le> s \<and> s < 58)
   \<and> (getGrade s = ''E'' \<longleftrightarrow> 40 \<le> s \<and> s < 50)
   \<and> (getGrade s = ''F'' \<longleftrightarrow> s < 40)
   \<and> getGrade s \<in> set (map fst gradeTiers) \<union> {''F''}
   \<and> distinct (map fst gradeTiers @ [''F''])
   \<and> length (map fst gradeTiers @ [''F'']) = 11"
  by (simp add: getGrade_def gradeTiers_def)

section \<open>The two neutral predicates\<close>

text \<open>
  Claim C10. The scoring engine's neutral test holds exactly when the saturation is
  below 12, and then the harmony classifier's test holds too. The converse fails: a
  colour with saturation from 12 up to 19 that is near-black (lightness below 12) or
  near-white (lightness above 92) is neutral for the classifier and chromatic for the
  scoring engine, and these are the only colours on which the two tests differ. Such a
  colour is among the neutrals of \<open>analyzeHarmony\<close> and among the chromatic colours
  of \<open>calculateOutfitScore\<close>.
\<close>

theorem neutral_predicates:
  "(Scoring_isNeutral c \<longleftrightarrow> hsl_s (hsl c) < 12)
   \<and> (Scoring_isNeutral c \<longrightarrow> isNeutral c)
   \<and> (12 \<le> hsl_s (hsl c) \<and> hsl_s (hsl c) < 20 \<and> (hsl_l (hsl c) < 12 \<or> hsl_l (hsl c) > 92)
        \<longrightarrow> isNeutral c \<and> \<not> Scoring_isNeutral c)
   \<and> (isNeutral c \<and> \<not> Scoring_isNeutral c
        \<longrightarrow> 12 \<le> hsl_s (hsl c) \<and> hsl_s (hsl c) < 20 \<and> (hsl_l (hsl c) < 12 \<or> hsl_l (hsl c) > 92))
   \<and> (12 \<le> hsl_s (hsl c) \<and> hsl_s (hsl c) < 20 \<and> (hsl_l (hsl c) < 12 \<or> hsl_l (hsl c) > 92)
        \<and> c \<in> set colors
        \<longrightarrow> c \<in> set (neutralsOf colors) \<and> c \<in> set (chromaticColors colors))"
  by (auto simp: Scoring_isNeutral_def isNeutral_def Let_def neutralsOf_def chromaticColors_def)

theorem neutral_predicates_witness:
  "isNeutral \<lparr>rgb = \<lparr>rgb_r = 247, rgb_g = 238, rgb_b = 237\<rparr>,
              hsl = \<lparr>hsl_h = 6, hsl_s = 15, hsl_l = 95\<rparr>,
              confidence = 1, dominantColors = [], isPattern = False,
              pixelCount = 100, filteredCount = 100\<rparr>
   \<and> \<not> Scoring_isNeutral \<lparr>rgb = \<lparr>rgb_r = 247, rgb_g = 238, rgb_b = 237\<rparr>,
              hsl = \<lparr>hsl_h = 6, hsl_s = 15, hsl_l = 95\<rparr>,
              confidence = 1, dominantColors = [], isPattern = False,
              pixelCount = 100, filteredCount = 100\<rparr>"
  using neutral_predicates [of "\<lparr>rgb = \<lparr>rgb_r = 247, rgb_g = 238, rgb_b = 237\<rparr>,
              hsl = \<lparr>hsl_h = 6, hsl_s = 15, hsl_l = 95\<rparr>,
              confidence = 1, dominantColors = [], isPattern = False,
              pixelCount = 100, filteredCount = 100\<rparr>" "[]"]
  by simp

section \<open>RGB to HSL\<close>

lemma Math_round_range:
  assumes "0 \<le> x" and "x \<le> real_of_int n"
  shows "0 \<le> Math_round x \<and> Math_round x \<le> n"
proof -
  have "0 \<le> \<lfloor>x + 1 / 2\<rfloor>" using assms(1) by simp
  moreover have "\<lfloor>x + 1 / 2\<rfloor> \<le> n" using assms(2) by linarith
  ultimately show ?thesis by (simp add: Math_round_def)
qed

lemma Math_round_nearest: "\<bar>real_of_int (Math_round x) - x\<bar> \<le> 1 / 2"
  unfolding Math_round_def by linarith

lemma quot_unit:
  fixes a d :: real
  assumes "0 < d" and "- d \<le> a" and "a \<le> d"
  shows "- 1 \<le> a / d \<and> a / d \<le> 1"
  using assms by (simp add: field_simps)

lemma saturation_unit:
  fixes mx mn :: real
  assumes "0 \<le> mn" and "mn < mx" and "mx \<le> 1"
  shows "0 \<le> (if (mx + mn) / 2 > 1 / 2 then (mx - mn) / (2 - mx - mn) else (mx - mn) / (mx + mn))
         \<and> (if (mx + mn) / 2 > 1 / 2 then (mx - mn) / (2 - mx - mn) else (mx - mn) / (mx + mn)) \<le> 1"
proof (cases "(mx + mn) / 2 > 1 / 2")
  case True
  have "0 < 2 - mx - mn" using assms by linarith
  then show ?thesis using True assms by (simp add: field_simps)
next
  case False
  have "0 < mx + mn" using assms by linarith
  then show ?thesis using False assms by (simp add: field_simps)
qed

lemma hue_unit:
  fixes r g b :: real
  defines "mx \<equiv> max r (max g b)" and "mn \<equiv> min r (min g b)"
  assumes "mx \<noteq> mn"
  shows "0 \<le> (if mx = r then ((g - b) / (mx - mn) + (if g < b then 6 else 0)) / 6
               else if mx = g then ((b - r) / (mx - mn) + 2) / 6
               else ((r - g) / (mx - mn) + 4) / 6)
         \<and> (if mx = r then ((g - b) / (mx - mn) + (if g < b then 6 else 0)) / 6
               else if mx = g then ((b - r) / (mx - mn) + 2) / 6
               else ((r - g) / (mx - mn) + 4) / 6) < 1"
proof -
  have d: "0 < mx - mn" using assms by (auto simp: max_def min_def split: if_splits)
  have gb: "- (mx - mn) \<le> g - b" "g - b \<le> mx - mn"
    and br: "- (mx - mn) \<le> b - r" "b - r \<le> mx - mn"
    and rg: "- (mx - mn) \<le> r - g" "r - g \<le> mx - mn"
    unfolding mx_def mn_def by (auto simp: max_def min_def)
  note q1 = quot_unit [OF d gb] and q2 = quot_unit [OF d br] and q3 = quot_unit [OF d rg]
  have neg: "g < b \<Longrightarrow> (g - b) / (mx - mn) < 0"
    using d by (simp add: divide_neg_pos)
  have pos: "\<not> g < b \<Longrightarrow> 0 \<le> (g - b) / (mx - mn)"
    using d by simp
  show ?thesis
    using q1 q2 q3 neg pos by (auto split: if_splits)
qed

text \<open>
  What does hold of \<open>rgbToHsl\<close> on every triple of channel values: each component is
  the exact value rounded to the nearest integer, saturation and lightness lie from 0 to
  100, and the hue lies from 0 to 360, both ends included.
\<close>

lemma rgbToHsl_range:
  assumes "0 \<le> r" "r \<le> 255" "0 \<le> g" "g \<le> 255" "0 \<le> b" "b \<le> 255"
  shows "0 \<le> hsl_h (rgbToHsl r g b) \<and> hsl_h (rgbToHsl r g b) \<le> 360
       \<and> 0 \<le> hsl_s (rgbToHsl r g b) \<and> hsl_s (rgbToHsl r g b) \<le> 100
       \<and> 0 \<le> hsl_l (rgbToHsl r g b) \<and> hsl_l (rgbToHsl r g b) \<le> 100"
proof -
  define R G B where "R = real_of_int r / 255" and "G = real_of_int g / 255"
    and "B = real_of_int b / 255"
  define mx mn where "mx = max R (max G B)" and "mn = min R (min G B)"
  have unit: "0 \<le> R" "R \<le> 1" "0 \<le> G" "G \<le> 1" "0 \<le> B" "B \<le> 1"
    using assms by (simp_all add: R_def G_def B_def)
  have mm: "0 \<le> mn" "mn \<le> mx" "mx \<le> 1"
    using unit by (auto simp: mx_def mn_def max_def min_def)
  define l where "l = (mx + mn) / 2"
  define s where "s = (if mx \<noteq> mn
               then (if l > 1 / 2 then (mx - mn) / (2 - mx - mn) else (mx - mn) / (mx + mn))
               else 0)"
  define h where "h = (if mx \<noteq> mn
               then (if mx = R then ((G - B) / (mx - mn) + (if G < B then 6 else 0)) / 6
                     else if mx = G then ((B - R) / (mx - mn) + 2) / 6
                     else ((R - G) / (mx - mn) + 4) / 6)
               else 0)"
  have eq: "rgbToHsl r g b = \<lparr>hsl_h = Math_round (h * 360),
          hsl_s = Math_round (s * 100), hsl_l = Math_round (l * 100)\<rparr>"
    unfolding rgbToHsl_def Let_def h_def s_def l_def mx_def mn_def R_def G_def B_def
    by (rule refl)
  have lr: "0 \<le> l * 100" "l * 100 \<le> real_of_int 100"
    using mm by (simp_all add: l_def)
  have sr: "0 \<le> s * 100" "s * 100 \<le> real_of_int 100"
  proof -
    have "0 \<le> s \<and> s \<le> 1"
    proof (cases "mx = mn")
      case True then show ?thesis by (simp add: s_def)
    next
      case False
      then have "mn < mx" using mm by linarith
      from saturation_unit [OF mm(1) this mm(3)] False show ?thesis
        by (simp add: s_def l_def)
    qed
    then show "0 \<le> s * 100" "s * 100 \<le> real_of_int 100" by simp_all
  qed
  have hr: "0 \<le> h * 360" "h * 360 \<le> real_of_int 360"
  proof -
    have "0 \<le> h \<and> h < 1"
    proof (cases "mx = mn")
      case True then show ?thesis by (simp add: h_def)
    next
      case False
      then have "max R (max G B) \<noteq> min R (min G B)" by (simp add: mx_def mn_def)
      from hue_unit [OF this] False show ?thesis
        unfolding h_def mx_def mn_def by simp
    qed
    then show "0 \<le> h * 360" "h * 360 \<le> real_of_int 360" by simp_all
  qed
  show ?thesis
    using Math_round_range [OF hr] Math_round_range [OF sr] Math_round_range [OF lr]
    by (simp add: eq)
qed

text \<open>
  Claim C1 fails on the hue. The exact hue is below 360, and a value above 359.5 rounds
  to 360: for the channel values (255, 0, 1) the exact hue is 359.76 and \<open>rgbToHsl\<close>
  returns hue 360, saturation 100 and lightness 50. The hue 360 is outside the stated
  range from 0 up to, but not including, 360.
\<close>

theorem rgbToHsl_hue_360:
  "rgbToHsl 255 0 1 = \<lparr>hsl_h = 360, hsl_s = 100, hsl_l = 50\<rparr>
   \<and> \<not> hsl_h (rgbToHsl 255 0 1) < 360"
  by (simp add: rgbToHsl_def Math_round_def Let_def)

section \<open>Outfit score\<close>

lemma intensityPoints_Some:
  "colors \<noteq> [] \<Longrightarrow> \<exists>n. intensityPoints colors = Some n"
  by (simp add: intensityPoints_def avgSat_def averageOrNaN_def)

text \<open>
  Claim C2. For every non-empty list of colour records and every harmony result, the
  breakdown of \<open>calculateOutfitScore\<close> has six items, all six point values are integers,
  and the total is their sum clamped to the range from 0 to 100; so the total lies from 0
  to 100 whichever branches are taken. The application calls the function with three
  colour records.
\<close>

theorem outfitScore_total:
  assumes "colors \<noteq> []"
  shows "\<exists>s t. sumPoints (breakdown (calculateOutfitScore colors harmonyResult)) = Some s
            \<and> total (calculateOutfitScore colors harmonyResult) = Some t
            \<and> t = max 0 (min 100 s) \<and> 0 \<le> t \<and> t \<le> 100
            \<and> length (breakdown (calculateOutfitScore colors harmonyResult)) = 6"
proof -
  obtain n where n: "intensityPoints colors = Some n"
    using intensityPoints_Some [OF assms] by blast
  show ?thesis
    by (simp add: calculateOutfitScore_def n addNaN_def sumPoints_def)
qed

lemma sqrt_gt_30: "(30 < sqrt v) = (900 < v)"
proof -
  have "sqrt 900 = 30"
    using real_sqrt_abs [of 30] by simp
  then show ?thesis
    using real_sqrt_less_iff [of 900 v] by simp
qed

lemma tuned_harmony:
  "analyzeHarmony tunedOutfit = \<lparr>harmony_type = ''Monochromatic'', harmony_score = 87\<rparr>"
  by (simp add: tunedOutfit_def analyzeHarmony_def colorOfHsl_def chromaticsOf_def
        neutralsOf_def isNeutral_def differencesOf_def hueDifference_def average_def)

lemma tuned_points:
  "harmonyPoints (analyzeHarmony tunedOutfit) = 26"
  "contrastPoints tunedOutfit = 18"
  "intensityPoints tunedOutfit = Some 15"
  "coherencePoints tunedOutfit = 12"
  "anchorPoints tunedOutfit = 6"
  "polishPoints tunedOutfit (analyzeHarmony tunedOutfit) = 15"
proof -
  show "harmonyPoints (analyzeHarmony tunedOutfit) = 26"
    by (simp add: tuned_harmony harmonyPoints_def Math_round_def)
  show "contrastPoints tunedOutfit = 18"
    by (simp add: contrastPoints_def Scoring_pairwiseContrasts_def tunedOutfit_def colorOfHsl_def
          average_def Scoring_bellCurve_def Math_round_def)
  show "intensityPoints tunedOutfit = Some 15"
    by (simp add: intensityPoints_def avgSat_def averageOrNaN_def satVarScore_def tunedOutfit_def
          colorOfHsl_def average_def Scoring_bellCurve_def Math_round_def)
  have chrom: "chromaticColors tunedOutfit = tunedOutfit"
    by (simp add: chromaticColors_def Scoring_isNeutral_def tunedOutfit_def colorOfHsl_def)
  have wc: "warmOf tunedOutfit = 0" "coolOf tunedOutfit = 3"
    by (simp_all add: warmOf_def coolOf_def Scoring_isWarmHue_def Scoring_isCoolHue_def
          tunedOutfit_def colorOfHsl_def)
  have len: "length tunedOutfit = 3" by (simp add: tunedOutfit_def)
  show "coherencePoints tunedOutfit = 12"
    by (simp add: coherencePoints_def chrom wc len)
  show "anchorPoints tunedOutfit = 6"
    by (simp add: anchorPoints_def chrom len avgSat_def averageOrNaN_def gtNaN_def average_def
          Scoring_isNeutral_def tunedOutfit_def colorOfHsl_def)
  have sd: "\<not> gtNaN (lightStdDev (map (\<lambda>c. hsl_l (hsl c)) tunedOutfit)) 30"
    by (simp add: gtNaN_def lightStdDev_def tunedOutfit_def colorOfHsl_def average_def
          sqrt_gt_30 power2_eq_square)
  show "polishPoints tunedOutfit (analyzeHarmony tunedOutfit) = 15"
    by (simp add: polishPoints_def tuned_harmony chrom wc len sd Let_def)
       (simp add: tunedOutfit_def colorOfHsl_def)
qed

theorem outfitScore_total_witness:
  "tunedOutfit \<noteq> []
   \<and> map points (breakdown (calculateOutfitScore tunedOutfit (analyzeHarmony tunedOutfit)))
       = [Some 26, Some 18, Some 15, Some 12, Some 6, Some 15]
   \<and> sumPoints (breakdown (calculateOutfitScore tunedOutfit (analyzeHarmony tunedOutfit))) = Some 92
   \<and> total (calculateOutfitScore tunedOutfit (analyzeHarmony tunedOutfit)) = Some 92"
proof -
  have ne: "tunedOutfit \<noteq> []" by (simp add: tunedOutfit_def)
  have pts: "map points (breakdown (calculateOutfitScore tunedOutfit (analyzeHarmony tunedOutfit)))
       = [Some 26, Some 18, Some 15, Some 12, Some 6, Some 15]"
    by (simp add: calculateOutfitScore_def tuned_points)
  have sum: "sumPoints (breakdown (calculateOutfitScore tunedOutfit (analyzeHarmony tunedOutfit)))
       = Some 92"
    by (simp add: calculateOutfitScore_def tuned_points sumPoints_def addNaN_def)
  from outfitScore_total [OF ne, of "analyzeHarmony tunedOutfit"] sum
  have "total (calculateOutfitScore tunedOutfit (analyzeHarmony tunedOutfit)) = Some 92"
    by auto
  with ne pts sum show ?thesis by simp
qed

text \<open>
  The empty list, which the application never passes: the average saturation is
  \<open>0 / 0\<close>, so the intensity points are NaN and so is the total.
  \<open>calculateConfidence\<close> and \<open>detectMood\<close> in the same object return early on an
  empty list; \<open>calculateOutfitScore\<close> has no such test.
\<close>

lemma outfitScore_empty:
  "total (calculateOutfitScore [] harmonyResult) = None
   \<and> points (breakdown (calculateOutfitScore [] harmonyResult) ! 2) = None
   \<and> sumPoints (breakdown (calculateOutfitScore [] harmonyResult)) = None"
  by (simp add: calculateOutfitScore_def intensityPoints_def avgSat_def averageOrNaN_def
        addNaN_def sumPoints_def)

section \<open>Harmony classification\<close>

lemma length_chromaticsOf_le: "length (chromaticsOf colors) \<le> length colors"
  by (simp add: chromaticsOf_def)

lemma length_pairwise_pos: "2 \<le> length xs \<Longrightarrow> pairwise f xs \<noteq> []"
  by (cases xs; cases "tl xs") auto

text \<open>
  Past the first three rules of \<open>analyzeHarmony\<close> there are at least two chromatic
  colours, so the lists of saturations, lightnesses and hue differences are not empty.
\<close>

lemma analyzeHarmony_lists_nonempty:
  assumes "\<not> length colors < 2"
    and "length (chromaticsOf colors) \<noteq> 0"
    and "\<not> (length (chromaticsOf colors) = 1 \<and> length (neutralsOf colors) \<ge> 1)"
  shows "2 \<le> length (chromaticsOf colors) \<and> differencesOf (chromaticsOf colors) \<noteq> []"
proof -
  have "length (neutralsOf colors) + length (chromaticsOf colors) = length colors"
    unfolding neutralsOf_def chromaticsOf_def by (rule sum_length_filter_compl)
  then have two: "2 \<le> length (chromaticsOf colors)"
    using assms by linarith
  then show ?thesis
    by (simp add: differencesOf_def length_pairwise_pos)
qed

lemma length_pairwise_ge3: "3 \<le> length xs \<Longrightarrow> 3 \<le> length (pairwise f xs)"
proof -
  assume "3 \<le> length xs"
  then obtain a b c rest where "xs = a # b # c # rest"
    by (cases xs; cases "tl xs"; cases "tl (tl xs)") auto
  then show ?thesis by simp
qed

text \<open>
  Claim C5, as amended. The Split-Complementary rule is tested before the Complementary
  rule and takes every input with a pairwise difference from 130 to 170. When at least
  two chromatic colours have their largest pairwise hue difference from 150 to 180 and no
  pairwise difference lies from 130 to 170, the result is "Complementary - Bold" with
  score 75 if the average chromatic saturation exceeds 60 and there is no neutral, and
  otherwise "Complementary" with score 90 if there is a neutral and 84 if there is none.
\<close>

theorem complementary_family:
  assumes "2 \<le> length (chromaticsOf colors)"
    and "150 \<le> Math_max (differencesOf (chromaticsOf colors))"
    and "Math_max (differencesOf (chromaticsOf colors)) \<le> 180"
    and "\<forall>d \<in> set (differencesOf (chromaticsOf colors)). \<not> (130 \<le> d \<and> d \<le> 170)"
  shows "analyzeHarmony colors =
     (if average (map (\<lambda>c. hsl_s (hsl c)) (chromaticsOf colors)) > 60 \<and> neutralsOf colors = []
      then \<lparr>harmony_type = ''Complementary - Bold'', harmony_score = 75\<rparr>
      else \<lparr>harmony_type = ''Complementary'',
            harmony_score = (if neutralsOf colors \<noteq> [] then 90 else 84)\<rparr>)"
proof -
  have len: "\<not> length colors < 2"
    using assms(1) length_chromaticsOf_le [of colors] by linarith
  show ?thesis
    unfolding analyzeHarmony_def Let_def
    using len assms by auto
qed

theorem complementary_family_witness:
  "analyzeHarmony [colorOfHsl 0 80 50, colorOfHsl 175 80 50]
     = \<lparr>harmony_type = ''Complementary - Bold'', harmony_score = 75\<rparr>
   \<and> analyzeHarmony [colorOfHsl 0 80 50, colorOfHsl 175 80 50, colorOfHsl 0 0 50]
     = \<lparr>harmony_type = ''Complementary'', harmony_score = 90\<rparr>
   \<and> analyzeHarmony [colorOfHsl 0 50 50, colorOfHsl 175 50 50]
     = \<lparr>harmony_type = ''Complementary'', harmony_score = 84\<rparr>"
  using complementary_family [of "[colorOfHsl 0 80 50, colorOfHsl 175 80 50]"]
        complementary_family [of "[colorOfHsl 0 80 50, colorOfHsl 175 80 50, colorOfHsl 0 0 50]"]
        complementary_family [of "[colorOfHsl 0 50 50, colorOfHsl 175 50 50]"]
  by (simp add: colorOfHsl_def chromaticsOf_def neutralsOf_def isNeutral_def
        differencesOf_def hueDifference_def average_def)

text \<open>
  Claim C5 as stated fails: two colours with saturation 80 at hues 0 and 160 have largest
  difference 160, average saturation 80 and no neutral, and are classified
  Split-Complementary with score 84.
\<close>

theorem complementary_counterexample:
  "length boldOpposites = 2
   \<and> neutralsOf boldOpposites = []
   \<and> chromaticsOf boldOpposites = boldOpposites
   \<and> Math_max (differencesOf (chromaticsOf boldOpposites)) = 160
   \<and> average (map (\<lambda>c. hsl_s (hsl c)) (chromaticsOf boldOpposites)) = 80
   \<and> analyzeHarmony boldOpposites = \<lparr>harmony_type = ''Split-Complementary'', harmony_score = 84\<rparr>
   \<and> analyzeHarmony boldOpposites \<noteq> \<lparr>harmony_type = ''Complementary - Bold'', harmony_score = 75\<rparr>"
  by (simp add: boldOpposites_def analyzeHarmony_def colorOfHsl_def chromaticsOf_def
        neutralsOf_def isNeutral_def differencesOf_def hueDifference_def average_def)

text \<open>
  Claim C6. Hues 0, 120 and 240 with saturation 60 and lightness 50 are classified
  Triadic with score 82. In general, at least three chromatic colours whose pairwise hue
  differences all lie from 90 to 150, or whose largest and smallest difference are less
  than 40 apart, with average difference at least 90, are classified Triadic with score
  82 whenever none of the Monochromatic, Analogous, Split-Complementary and Complementary
  rules matches.
\<close>

theorem triadic:
  "analyzeHarmony triadExample = \<lparr>harmony_type = ''Triadic'', harmony_score = 82\<rparr>
   \<and> (3 \<le> length (chromaticsOf colors)
       \<and> ((\<forall>d \<in> set (differencesOf (chromaticsOf colors)). 90 \<le> d \<and> d \<le> 150)
           \<or> Math_max (differencesOf (chromaticsOf colors))
              - Math_min (differencesOf (chromaticsOf colors)) < 40)
       \<and> 90 \<le> average (differencesOf (chromaticsOf colors))
       \<and> \<not> Math_max (differencesOf (chromaticsOf colors)) < 25
       \<and> \<not> (25 \<le> Math_max (differencesOf (chromaticsOf colors))
             \<and> Math_max (differencesOf (chromaticsOf colors)) \<le> 60)
       \<and> \<not> (\<exists>d \<in> set (differencesOf (chromaticsOf colors)). 130 \<le> d \<and> d \<le> 170)
       \<and> \<not> (150 \<le> Math_max (differencesOf (chromaticsOf colors))
             \<and> Math_max (differencesOf (chromaticsOf colors)) \<le> 180)
      \<longrightarrow> analyzeHarmony colors = \<lparr>harmony_type = ''Triadic'', harmony_score = 82\<rparr>)"
proof (intro conjI impI)
  show "analyzeHarmony triadExample = \<lparr>harmony_type = ''Triadic'', harmony_score = 82\<rparr>"
    by (simp add: triadExample_def analyzeHarmony_def colorOfHsl_def chromaticsOf_def
          neutralsOf_def isNeutral_def differencesOf_def hueDifference_def average_def)
next
  assume h: "3 \<le> length (chromaticsOf colors)
       \<and> ((\<forall>d \<in> set (differencesOf (chromaticsOf colors)). 90 \<le> d \<and> d \<le> 150)
           \<or> Math_max (differencesOf (chromaticsOf colors))
              - Math_min (differencesOf (chromaticsOf colors)) < 40)
       \<and> 90 \<le> average (differencesOf (chromaticsOf colors))
       \<and> \<not> Math_max (differencesOf (chromaticsOf colors)) < 25
       \<and> \<not> (25 \<le> Math_max (differencesOf (chromaticsOf colors))
             \<and> Math_max (differencesOf (chromaticsOf colors)) \<le> 60)
       \<and> \<not> (\<exists>d \<in> set (differencesOf (chromaticsOf colors)). 130 \<le> d \<and> d \<le> 170)
       \<and> \<not> (150 \<le> Math_max (differencesOf (chromaticsOf colors))
             \<and> Math_max (differencesOf (chromaticsOf colors)) \<le> 180)"
  have len: "\<not> length colors < 2"
    using h length_chromaticsOf_le [of colors] by linarith
  have dlen: "3 \<le> length (differencesOf (chromaticsOf colors))"
    using h by (simp add: differencesOf_def length_pairwise_ge3)
  show "analyzeHarmony colors = \<lparr>harmony_type = ''Triadic'', harmony_score = 82\<rparr>"
    unfolding analyzeHarmony_def Let_def
    using len dlen h by auto
qed

theorem triadic_witness:
  "3 \<le> length (chromaticsOf triadExample)
   \<and> differencesOf (chromaticsOf triadExample) = [120, 120, 120]
   \<and> average (differencesOf (chromaticsOf triadExample)) = 120
   \<and> analyzeHarmony triadExample = \<lparr>harmony_type = ''Triadic'', harmony_score = 82\<rparr>"
  using triadic [of triadExample]
  by (simp add: triadExample_def colorOfHsl_def chromaticsOf_def isNeutral_def
        differencesOf_def hueDifference_def average_def)

section \<open>Trimmed mean: results\<close>

lemma floor_tenth:
  "nat (Math_floor (real n * 0.1)) = n div 10"
  "nat (Math_floor (real n / 10)) = n div 10"
proof -
  have "\<lfloor>real n / real 10\<rfloor> = int (n div 10)"
    by (rule floor_divide_of_nat_eq)
  then show "nat (Math_floor (real n / 10)) = n div 10"
    by (simp add: Math_floor_def)
  then show "nat (Math_floor (real n * 0.1)) = n div 10"
    by simp
qed

lemma slice_remainder:
  "slice (sort xs) (length xs div 10) (length xs - length xs div 10) = trimmedRemainder xs"
  by (simp add: slice_def trimmedRemainder_def dropEnd_def Let_def)

lemma trimmedRemainder_length:
  "length (trimmedRemainder xs) = length xs - 2 * (length xs div 10)"
  by (simp add: trimmedRemainder_def dropEnd_def Let_def)

lemma trimmedRemainder_nonempty: "xs \<noteq> [] \<Longrightarrow> trimmedRemainder xs \<noteq> []"
proof -
  assume "xs \<noteq> []"
  then have "0 < length xs" by simp
  then have "0 < length xs - 2 * (length xs div 10)" by linarith
  then show ?thesis using trimmedRemainder_length [of xs] by auto
qed

lemma Math_round_of_int: "Math_round (real_of_int n) = n"
  unfolding Math_round_def by linarith

lemma sort_replicate: "sort (replicate n (v::int)) = replicate n v"
  by (rule sorted_sort_id) (simp add: sorted_replicate)

lemma trimmedRemainder_replicate:
  "trimmedRemainder (replicate n v) = replicate (n - 2 * (n div 10)) v"
  by (simp add: trimmedRemainder_def dropEnd_def Let_def sort_replicate)

lemma average_replicate: "0 < m \<Longrightarrow> average (replicate m v) = real_of_int v"
  by (simp add: average_def sum_list_replicate)

lemma GarmentDetection_trimmedMean_nonempty:
  assumes "xs \<noteq> []"
  shows "GarmentDetection_trimmedMean xs = Math_round (average (trimmedRemainder xs))"
  using assms trimmedRemainder_nonempty [OF assms]
  by (simp add: GarmentDetection_trimmedMean_def Let_def floor_tenth slice_remainder average_def)

lemma trimmedMean_nonempty:
  assumes "xs \<noteq> []"
  shows "trimmedMean xs = Some (Math_round (average (trimmedRemainder xs)))"
  using assms trimmedRemainder_nonempty [OF assms]
  by (simp add: trimmedMean_def Let_def floor_tenth slice_remainder average_def)

lemma GarmentDetection_trimmedMean_replicate:
  assumes "0 < n"
  shows "GarmentDetection_trimmedMean (replicate n v) = v"
proof -
  have ne: "replicate n v \<noteq> []" using assms by simp
  have pos: "0 < n - 2 * (n div 10)" using assms by linarith
  show ?thesis
    unfolding GarmentDetection_trimmedMean_nonempty [OF ne] trimmedRemainder_replicate
      average_replicate [OF pos] Math_round_of_int ..
qed

text \<open>
  Claim C3, as amended. For every non-empty list of integers the remainder, after sorting
  and dropping a tenth of the length (rounded down) from each end, is not empty, and both
  trimmed means return its mean rounded to the nearest integer, a tie going up; the median
  branch is never taken. On the empty list \<open>GarmentDetection._trimmedMean\<close> returns
  128 and the local \<open>trimmedMean\<close> of \<open>extractAverageColor\<close> returns
  \<open>undefined\<close>. The trimmed mean of 100 copies of 50 is 50.
\<close>

theorem trimmedMean_rounded:
  "(xs \<noteq> [] \<longrightarrow>
       trimmedRemainder xs \<noteq> []
     \<and> GarmentDetection_trimmedMean xs = Math_round (average (trimmedRemainder xs))
     \<and> trimmedMean xs = Some (Math_round (average (trimmedRemainder xs))))
   \<and> GarmentDetection_trimmedMean [] = 128
   \<and> trimmedMean [] = None
   \<and> GarmentDetection_trimmedMean (replicate 100 50) = 50"
proof (intro conjI impI)
  assume ne: "xs \<noteq> []"
  show "trimmedRemainder xs \<noteq> []" by (rule trimmedRemainder_nonempty [OF ne])
  show "GarmentDetection_trimmedMean xs = Math_round (average (trimmedRemainder xs))"
    by (rule GarmentDetection_trimmedMean_nonempty [OF ne])
  show "trimmedMean xs = Some (Math_round (average (trimmedRemainder xs)))"
    by (rule trimmedMean_nonempty [OF ne])
next
  show "GarmentDetection_trimmedMean [] = 128" by (simp add: GarmentDetection_trimmedMean_def)
  show "trimmedMean [] = None" by (simp add: trimmedMean_def slice_def Math_floor_def)
  show "GarmentDetection_trimmedMean (replicate 100 50) = 50"
    by (rule GarmentDetection_trimmedMean_replicate) simp
qed

theorem trimmedMean_rounded_witness:
  "GarmentDetection_trimmedMean [1, 2] = 2 \<and> trimmedMean [1, 2] = Some 2"
  using trimmedMean_rounded [of "[1, 2]"]
  by (simp add: average_def trimmedRemainder_def dropEnd_def Math_round_def)

text \<open>
  Claim C3 as stated fails: the remainder of \<open>[1, 2]\<close> has mean 3/2 and the trimmed
  mean returned is 2; and the empty list gives 128, not a median.
\<close>

theorem trimmedMean_counterexample:
  "average (trimmedRemainder [1, 2]) = 3 / 2
   \<and> real_of_int (GarmentDetection_trimmedMean [1, 2]) \<noteq> average (trimmedRemainder [1, 2])
   \<and> GarmentDetection_trimmedMean [1, 2] = 2
   \<and> GarmentDetection_trimmedMean [] = 128"
  by (simp add: GarmentDetection_trimmedMean_def slice_def Math_round_def Math_floor_def
        average_def trimmedRemainder_def dropEnd_def)

section \<open>Zone colours\<close>

lemma getPixelData_transparent:
  assumes "transparentRegion cv rect"
  shows "GarmentDetection_getPixelData cv rect = []"
proof -
  obtain x y w h where c: "clampRect cv rect = (x, y, w, h)"
    by (cases "clampRect cv rect") auto
  have sub: "set (everyFourth (getImageData cv x y w h)) \<subseteq> set (getImageData cv x y w h)"
    by (auto simp: everyFourth_def)
  have "filter (\<lambda>p. \<not> snd p < 128) (everyFourth (getImageData cv x y w h)) = []"
    using assms sub by (auto simp: c filter_empty_conv transparentRegion_def)
  then show ?thesis
    by (simp add: GarmentDetection_getPixelData_def c)
qed

lemma getPixelData_empty_rect:
  assumes "emptyRegion cv rect"
  shows "GarmentDetection_getPixelData cv rect = []"
  using assms by (auto simp: GarmentDetection_getPixelData_def emptyRegion_def split: prod.splits)

lemma rgbToHsl_gray: "rgbToHsl 128 128 128 = \<lparr>hsl_h = 0, hsl_s = 0, hsl_l = 50\<rparr>"
  by (simp add: rgbToHsl_def Math_round_def Let_def)

lemma extractZoneColor_no_pixels:
  assumes "GarmentDetection_getPixelData cv (zoneRect z) = []"
  shows "extractZoneColor cv z = sentinelColor"
  by (simp add: extractZoneColor_def assms GarmentDetection_rejectSkinPixels_def
        GarmentDetection_getDominantFromPixels_def GarmentDetection_getDominantColorsFromPixels_def
        GarmentDetection_calculateConfidence_def GarmentDetection_isPattern_def sentinel_def
        sentinelColor_def rgbToHsl_gray)


lemma extractZoneColor_transparent:
  assumes "transparentRegion cv (zoneRect z)"
  shows "extractZoneColor cv z = sentinelColor"
  by (rule extractZoneColor_no_pixels [OF getPixelData_transparent [OF assms]])

text \<open>
  Claim C4. A zone whose sampling rectangle yields no sampled pixel gets the colour record
  built from the neutral gray (128, 128, 128), with confidence 0 and no dominant colours.
  No pixel is sampled when the clamped rectangle is empty and when every pixel in it has
  alpha below 128. When the regions of the three zones top, bottom and shoes are all
  transparent, all three get that record.
\<close>

theorem extractZoneColors_sentinel:
  "(GarmentDetection_getPixelData cv (zoneRect z) = []
      \<longrightarrow> extractZoneColor cv z = sentinelColor \<and> rgb (extractZoneColor cv z) = sentinel)
   \<and> (emptyRegion cv (zoneRect z) \<or> transparentRegion cv (zoneRect z)
      \<longrightarrow> GarmentDetection_getPixelData cv (zoneRect z) = [])
   \<and> (transparentRegion cv (zoneRect topZone) \<and> transparentRegion cv (zoneRect bottomZone)
        \<and> transparentRegion cv (zoneRect shoesZone)
      \<longrightarrow> extractZoneColors cv [(''top'', topZone), (''bottom'', bottomZone), (''shoes'', shoesZone)]
          = [(''top'', sentinelColor), (''bottom'', sentinelColor), (''shoes'', sentinelColor)])"
proof (intro conjI impI)
  assume e: "GarmentDetection_getPixelData cv (zoneRect z) = []"
  show "extractZoneColor cv z = sentinelColor"
    by (rule extractZoneColor_no_pixels [OF e])
  then show "rgb (extractZoneColor cv z) = sentinel"
    by (simp add: sentinelColor_def)
next
  assume "emptyRegion cv (zoneRect z) \<or> transparentRegion cv (zoneRect z)"
  then show "GarmentDetection_getPixelData cv (zoneRect z) = []"
    using getPixelData_empty_rect getPixelData_transparent by blast
next
  assume "transparentRegion cv (zoneRect topZone) \<and> transparentRegion cv (zoneRect bottomZone)
        \<and> transparentRegion cv (zoneRect shoesZone)"
  then show "extractZoneColors cv [(''top'', topZone), (''bottom'', bottomZone), (''shoes'', shoesZone)]
          = [(''top'', sentinelColor), (''bottom'', sentinelColor), (''shoes'', sentinelColor)]"
    by (simp add: extractZoneColors_def extractZoneColor_transparent)
qed

lemma transparentRegion_clearCanvas: "transparentRegion clearCanvas r"
  by (auto simp: transparentRegion_def clearCanvas_def getImageData_def split: prod.splits)

lemma emptyRegion_outsideZone: "emptyRegion clearCanvas (zoneRect outsideZone)"
  by (simp add: emptyRegion_def clampRect_def zoneRect_def outsideZone_def clearCanvas_def
        Math_round_def)

theorem extractZoneColors_sentinel_witness:
  "extractZoneColors clearCanvas
      [(''top'', bandZone 1 3), (''bottom'', bandZone 4 3), (''shoes'', bandZone 8 2)]
     = [(''top'', sentinelColor), (''bottom'', sentinelColor), (''shoes'', sentinelColor)]
   \<and> rgb (extractZoneColor clearCanvas (bandZone 1 3)) = \<lparr>rgb_r = 128, rgb_g = 128, rgb_b = 128\<rparr>
   \<and> rgb (extractZoneColor clearCanvas outsideZone) = \<lparr>rgb_r = 128, rgb_g = 128, rgb_b = 128\<rparr>"
  using extractZoneColors_sentinel [of clearCanvas "bandZone 1 3" "bandZone 1 3" "bandZone 4 3" "bandZone 8 2"]
        extractZoneColors_sentinel [of clearCanvas outsideZone]
        transparentRegion_clearCanvas emptyRegion_outsideZone
  by (simp add: sentinel_def sentinelColor_def)

section \<open>Pattern detection\<close>

lemma dominantColors_descending:
  "sorted_wrt (\<lambda>a b. frequency a \<ge> frequency b)
     (GarmentDetection_getDominantColorsFromPixels pixels n)"
proof (cases "length pixels = 0")
  case True
  then show ?thesis by (simp add: GarmentDetection_getDominantColorsFromPixels_def)
next
  case False
  define ys where "ys = sort_key (\<lambda>b. - int (b_count b)) (map snd (fold addToBuckets pixels []))"
  have "sorted (map (\<lambda>b. - int (b_count b)) ys)"
    unfolding ys_def by (rule sorted_sort_key)
  then have "sorted (take n (map (\<lambda>b. - int (b_count b)) ys))"
    by (rule sorted_wrt_take)
  then have "sorted_wrt (\<lambda>a b. - int (b_count a) \<le> - int (b_count b)) (take n ys)"
    by (simp add: take_map sorted_wrt_map)
  then have "sorted_wrt (\<lambda>a b. real (b_count a) / real (length pixels)
                              \<ge> real (b_count b) / real (length pixels)) (take n ys)"
    by (rule sorted_wrt_mono_rel [rotated]) (simp add: divide_right_mono)
  then show ?thesis
    using False
    by (simp add: GarmentDetection_getDominantColorsFromPixels_def Let_def slice_def
          sorted_wrt_map ys_def)
qed

text \<open>
  Claim C7. \<open>_isPattern\<close> is true exactly when the list has a first and a second
  entry, their frequencies are at least 0.25 and at least 0.15, and they differ by more
  than 25 in hue (circular), or more than 25 in lightness, or more than 30 in saturation.
  Frequencies 0.3 and 0.2 with hue difference 40 give true; hue difference 5 with
  lightness difference 5 and saturation difference 5 gives false. The list that
  \<open>extractZoneColors\<close> passes is in descending order of frequency, so its first two
  entries are the two most frequent dominant colours.
\<close>

theorem isPattern_iff:
  "(GarmentDetection_isPattern dcs \<longleftrightarrow>
      (\<exists>c1 c2 rest. dcs = c1 # c2 # rest
         \<and> frequency c1 \<ge> 0.25 \<and> frequency c2 \<ge> 0.15
         \<and> (hueDifference (hsl_h (d_hsl c1)) (hsl_h (d_hsl c2)) > 25
              \<or> \<bar>hsl_l (d_hsl c1) - hsl_l (d_hsl c2)\<bar> > 25
              \<or> \<bar>hsl_s (d_hsl c1) - hsl_s (d_hsl c2)\<bar> > 30)))
   \<and> (frequency c1 = 0.3 \<and> frequency c2 = 0.2
         \<and> hueDifference (hsl_h (d_hsl c1)) (hsl_h (d_hsl c2)) = 40
       \<longrightarrow> GarmentDetection_isPattern (c1 # c2 # rest))
   \<and> (hueDifference (hsl_h (d_hsl c1)) (hsl_h (d_hsl c2)) = 5
         \<and> \<bar>hsl_l (d_hsl c1) - hsl_l (d_hsl c2)\<bar> = 5
         \<and> \<bar>hsl_s (d_hsl c1) - hsl_s (d_hsl c2)\<bar> = 5
       \<longrightarrow> \<not> GarmentDetection_isPattern (c1 # c2 # rest))
   \<and> sorted_wrt (\<lambda>a b. frequency a \<ge> frequency b)
        (GarmentDetection_getDominantColorsFromPixels pixels 3)"
proof (intro conjI impI)
  show "GarmentDetection_isPattern dcs \<longleftrightarrow>
      (\<exists>c1 c2 rest. dcs = c1 # c2 # rest
         \<and> frequency c1 \<ge> 0.25 \<and> frequency c2 \<ge> 0.15
         \<and> (hueDifference (hsl_h (d_hsl c1)) (hsl_h (d_hsl c2)) > 25
              \<or> \<bar>hsl_l (d_hsl c1) - hsl_l (d_hsl c2)\<bar> > 25
              \<or> \<bar>hsl_s (d_hsl c1) - hsl_s (d_hsl c2)\<bar> > 30))"
  proof (cases dcs)
    case Nil
    then show ?thesis by (simp add: GarmentDetection_isPattern_def)
  next
    case (Cons a as)
    then show ?thesis
      by (cases as) (auto simp: GarmentDetection_isPattern_def Let_def)
  qed
next
  assume "frequency c1 = 0.3 \<and> frequency c2 = 0.2
         \<and> hueDifference (hsl_h (d_hsl c1)) (hsl_h (d_hsl c2)) = 40"
  then show "GarmentDetection_isPattern (c1 # c2 # rest)"
    by (simp add: GarmentDetection_isPattern_def Let_def)
next
  assume "hueDifference (hsl_h (d_hsl c1)) (hsl_h (d_hsl c2)) = 5
         \<and> \<bar>hsl_l (d_hsl c1) - hsl_l (d_hsl c2)\<bar> = 5
         \<and> \<bar>hsl_s (d_hsl c1) - hsl_s (d_hsl c2)\<bar> = 5"
  then show "\<not> GarmentDetection_isPattern (c1 # c2 # rest)"
    by (simp add: GarmentDetection_isPattern_def Let_def)
next
  show "sorted_wrt (\<lambda>a b. frequency a \<ge> frequency b)
        (GarmentDetection_getDominantColorsFromPixels pixels 3)"
    by (rule dominantColors_descending)
qed

theorem isPattern_iff_witness:
  "GarmentDetection_isPattern [dominantOf 0.3 200 50 50, dominantOf 0.2 240 50 50]
   \<and> \<not> GarmentDetection_isPattern [dominantOf 0.3 200 50 50, dominantOf 0.2 205 55 45]"
  using isPattern_iff [of "[dominantOf 0.3 200 50 50, dominantOf 0.2 240 50 50]"
                          "dominantOf 0.3 200 50 50" "dominantOf 0.2 240 50 50" "[]"]
        isPattern_iff [of "[]" "dominantOf 0.3 200 50 50" "dominantOf 0.2 205 55 45" "[]"]
  by (simp add: dominantOf_def hueDifference_def)

section \<open>Floating point: results\<close>

text \<open>The exponent that \<open>binaryRound\<close> uses is the binary exponent of its argument.\<close>

lemma binaryExponent_bounds:
  assumes "x \<noteq> 0"
  shows "2 powi (binaryExponent x) \<le> \<bar>x\<bar> \<and> \<bar>x\<bar> < 2 powi (binaryExponent x + 1)"
proof -
  obtain a b where q: "quotient_of \<bar>x\<bar> = (a, b)" by (cases "quotient_of \<bar>x\<bar>") auto
  have b: "0 < b" using quotient_of_denom_pos [OF q] .
  have xe: "\<bar>x\<bar> = of_int a / of_int b" using quotient_of_div [OF q] .
  have a: "0 < a"
  proof -
    have "0 < \<bar>x\<bar>" using assms by simp
    then show ?thesis using b by (simp add: xe zero_less_divide_iff)
  qed
  define la lb where "la = bitlen a" and "lb = bitlen b"
  have la1: "1 \<le> la" and lb1: "1 \<le> lb"
    using a b bitlen_eq_zero_iff [of a] bitlen_eq_zero_iff [of b] bitlen_nonneg [of a] bitlen_nonneg [of b]
    unfolding la_def lb_def by linarith+
  have pw: "(2::rat) ^ nat k = 2 powi k" if "0 \<le> k" for k
    using that by (simp add: power_int_def)
  have A: "2 powi (la - 1) \<le> (of_int a :: rat)" "(of_int a :: rat) < 2 powi la"
  proof -
    from bitlen_bounds [OF a] have "2 ^ nat (la - 1) \<le> a" "a < 2 ^ nat la"
      by (simp_all add: la_def)
    then have "(of_int (2 ^ nat (la - 1)) :: rat) \<le> of_int a" "(of_int a :: rat) < of_int (2 ^ nat la)"
      by (simp_all only: of_int_le_iff of_int_less_iff)
    then show "2 powi (la - 1) \<le> (of_int a :: rat)" "(of_int a :: rat) < 2 powi la"
      using la1 by (simp_all add: pw)
  qed
  have B: "2 powi (lb - 1) \<le> (of_int b :: rat)" "(of_int b :: rat) < 2 powi lb"
  proof -
    from bitlen_bounds [OF b] have "2 ^ nat (lb - 1) \<le> b" "b < 2 ^ nat lb"
      by (simp_all add: lb_def)
    then have "(of_int (2 ^ nat (lb - 1)) :: rat) \<le> of_int b" "(of_int b :: rat) < of_int (2 ^ nat lb)"
      by (simp_all only: of_int_le_iff of_int_less_iff)
    then show "2 powi (lb - 1) \<le> (of_int b :: rat)" "(of_int b :: rat) < 2 powi lb"
      using lb1 by (simp_all add: pw)
  qed
  have pos: "(0::rat) < 2 powi k" for k by simp
  have up: "\<bar>x\<bar> < 2 powi (la - lb + 1)"
  proof -
    have "of_int a / of_int b < (2 powi la :: rat) / 2 powi (lb - 1)"
      using A(2) B(1) a b pos [of "lb - 1"] by (intro frac_less) simp_all
    also have "\<dots> = 2 powi (la - (lb - 1))"
      by (simp add: power_int_diff)
    finally show ?thesis by (simp add: xe algebra_simps)
  qed
  have lo: "2 powi (la - lb - 1) \<le> \<bar>x\<bar>"
  proof -
    have a0: "(0::rat) \<le> of_int a" and b0: "(0::rat) < of_int b"
      using a b by simp_all
    have "(2 powi (la - 1) :: rat) / 2 powi lb \<le> of_int a / of_int b"
    proof (rule frac_le)
      show "(0::rat) \<le> of_int a" by (rule a0)
      show "2 powi (la - 1) \<le> (of_int a :: rat)" by (rule A(1))
      show "(0::rat) < of_int b" by (rule b0)
      show "(of_int b :: rat) \<le> 2 powi lb" using B(2) by simp
    qed
    moreover have "(2 powi (la - 1) :: rat) / 2 powi lb = 2 powi (la - 1 - lb)"
      by (simp add: power_int_diff)
    ultimately show ?thesis by (simp add: xe algebra_simps)
  qed
  show ?thesis
    using up lo by (auto simp: binaryExponent_def q la_def lb_def Let_def algebra_simps)
qed


section \<open>Body column detection: results\<close>

lemma stripH_div: "stripH cv = (2 * canvas_height cv) div 5"
proof -
  have "real_of_int (canvas_height cv) * 0.4 = real_of_int (2 * canvas_height cv) / real_of_int 5"
    by simp
  then show ?thesis
    unfolding stripH_def Math_floor_def by (simp only: floor_divide_of_int_eq)
qed

lemma windowSize_div: "windowSize cv = canvas_width cv div 2"
proof -
  have "real_of_int (canvas_width cv) * 0.5 = real_of_int (canvas_width cv) / real_of_int 2"
    by simp
  then show ?thesis
    unfolding windowSize_def Math_floor_def by (simp only: floor_divide_of_int_eq)
qed

lemma detect_None_iff:
  "GarmentDetection_detectBodyColumn fl cv = None \<longleftrightarrow>
     stripH cv < 10 \<or> canvas_width cv < 20 \<or> avgEdge fl cv < 3"
proof -
  have "canvas_width cv < 20 \<longleftrightarrow> windowSize cv < 10"
    unfolding windowSize_div by linarith
  then show ?thesis
    by (auto simp: GarmentDetection_detectBodyColumn_def Let_def)
qed

lemma runningSums_Cons:
  "runningSums fl cv c js = c # tl (runningSums fl cv c js)"
  by (cases js) simp_all

lemma Max_insert_max:
  fixes m c :: rat
  assumes "finite S"
  shows "Max (insert (max m c) S) = Max (insert m (insert c S))"
  using assms by (cases "S = {}") (simp_all add: max.assoc)

lemma slide_fold_max:
  "fst (snd (fold (slideStep fl cv) js (c, m, st)))
     = Max (insert m (set (tl (runningSums fl cv c js))))"
proof (induction js arbitrary: c m st)
  case Nil
  show ?case by simp
next
  case (Cons i js)
  define c' where
    "c' = dbl fl (dbl fl (c - edgeStrength fl cv (i - 1)) + edgeStrength fl cv (i + windowSize cv - 1))"
  have step: "slideStep fl cv i (c, m, st) = (c', max m c', if c' > m then i else st)"
    by (auto simp: slideStep_def Let_def c'_def max_def)
  have tl: "tl (runningSums fl cv c (i # js)) = c' # tl (runningSums fl cv c' js)"
    using runningSums_Cons [of fl cv c' js] by (simp add: c'_def)
  have "fst (snd (fold (slideStep fl cv) (i # js) (c, m, st)))
          = Max (insert (max m c') (set (tl (runningSums fl cv c' js))))"
    by (simp add: step Cons.IH)
  also have "\<dots> = Max (insert m (insert c' (set (tl (runningSums fl cv c' js)))))"
    by (rule Max_insert_max) simp
  finally have f: "fst (snd (fold (slideStep fl cv) (i # js) (c, m, st)))
          = Max (insert m (insert c' (set (tl (runningSums fl cv c' js)))))" .
  show ?case unfolding tl list.set(2) by (rule f)
qed

lemma maxSum_is_Max: "maxSum fl cv = Max (set (windowSums fl cv))"
proof -
  let ?c = "firstWindow fl cv" and ?js = "[1..canvas_width cv - windowSize cv]"
  have "maxSum fl cv = Max (insert ?c (set (tl (runningSums fl cv ?c ?js))))"
    by (simp add: maxSum_def slideWindow_def slide_fold_max)
  also have "insert ?c (set (tl (runningSums fl cv ?c ?js))) = set (runningSums fl cv ?c ?js)"
    using runningSums_Cons [of fl cv ?c ?js] by (metis list.simps(15))
  finally show ?thesis by (simp add: windowSums_def)
qed

lemma length_runningSums: "length (runningSums fl cv c js) = length js + 1"
  by (induction js arbitrary: c) simp_all


lemma nth_concat_uniform:
  assumes "\<forall>r \<in> set rows. length r = w" and "i < length rows" and "k < w"
  shows "concat rows ! (i * w + k) = rows ! i ! k"
  using assms
proof (induction rows arbitrary: i)
  case Nil
  then show ?case by simp
next
  case (Cons r rs)
  have lr: "length r = w" using Cons.prems(1) by simp
  show ?case
  proof (cases i)
    case 0
    then show ?thesis using Cons.prems(3) lr by (simp add: nth_append)
  next
    case (Suc i')
    have "concat (r # rs) ! (i * w + k) = (r @ concat rs) ! (length r + (i' * w + k))"
      by (simp add: Suc lr algebra_simps)
    also have "\<dots> = concat rs ! (i' * w + k)"
      by (rule nth_append_length_plus)
    also have "\<dots> = rs ! i' ! k"
      using Cons.IH [of i'] Cons.prems Suc by simp
    finally show ?thesis by (simp add: Suc)
  qed
qed

text \<open>
  Entry \<open>j * w + i\<close> of the image data of a rectangle is the pixel in column \<open>i\<close> and
  row \<open>j\<close> of the rectangle.
\<close>

lemma getImageData_nth:
  assumes "0 \<le> i" "i < w" "0 \<le> j" "j < h"
  shows "getImageData cv x y w h ! nat (j * w + i) = canvas_pixel cv (x + i) (y + j)"
proof -
  define rows where
    "rows = map (\<lambda>jj. map (\<lambda>ii. canvas_pixel cv ii jj) [x..x + w - 1]) [y..y + h - 1]"
  have len: "\<forall>r \<in> set rows. length r = nat w"
    using assms by (auto simp: rows_def)
  have lj: "nat j < length rows" using assms by (simp add: rows_def)
  have li: "nat i < nat w" using assms by simp
  have idx: "nat (j * w + i) = nat j * nat w + nat i"
    using assms by (simp add: nat_add_distrib nat_mult_distrib)
  have rj: "[y..y + h - 1] ! nat j = y + j" using assms by (simp add: nth_upto)
  have ri: "[x..x + w - 1] ! nat i = x + i" using assms by (simp add: nth_upto)
  have "getImageData cv x y w h ! nat (j * w + i) = rows ! nat j ! nat i"
    unfolding getImageData_def rows_def [symmetric] idx
    by (rule nth_concat_uniform [OF len lj li])
  also have "\<dots> = canvas_pixel cv (x + i) (y + j)"
    using assms by (simp add: rows_def rj ri)
  finally show ?thesis .
qed

lemma sampledRows_range: "y \<in> set (sampledRows h) \<Longrightarrow> 0 \<le> y \<and> y < h"
  by (auto simp: sampledRows_def)

text \<open>
  Reading the image data of the strip at \<open>y * width + x\<close> is reading the canvas at column
  \<open>x\<close> and row \<open>stripY + y\<close>.
\<close>

lemma columnBrightness_pixel:
  assumes "0 \<le> x" and "x < canvas_width cv"
  shows "columnBrightness fl cv x =
           f32 fl (if length (sampledRows (stripH cv)) > 0
                   then dbl fl (fold (\<lambda>y sum. dbl fl (sum + luminance fl
                                         (fst (canvas_pixel cv x (stripY cv + y)))))
                                  (sampledRows (stripH cv)) 0
                                / of_nat (length (sampledRows (stripH cv))))
                   else 128)"
proof -
  have eq: "fold (\<lambda>y sum. dbl fl (sum + luminance fl
                (fst (getImageData cv 0 (stripY cv) (canvas_width cv) (stripH cv)
                        ! nat (y * canvas_width cv + x))))) (sampledRows (stripH cv)) 0
        = fold (\<lambda>y sum. dbl fl (sum + luminance fl (fst (canvas_pixel cv x (stripY cv + y)))))
            (sampledRows (stripH cv)) 0"
  proof (rule fold_cong [OF refl refl])
    fix y assume "y \<in> set (sampledRows (stripH cv))"
    then have "0 \<le> y \<and> y < stripH cv" by (rule sampledRows_range)
    then have "getImageData cv 0 (stripY cv) (canvas_width cv) (stripH cv)
                 ! nat (y * canvas_width cv + x) = canvas_pixel cv x (stripY cv + y)"
      using getImageData_nth [of x "canvas_width cv" y "stripH cv" cv 0 "stripY cv"] assms
      by simp
    then show "(\<lambda>sum. dbl fl (sum + luminance fl
                (fst (getImageData cv 0 (stripY cv) (canvas_width cv) (stripH cv)
                        ! nat (y * canvas_width cv + x)))))
             = (\<lambda>sum. dbl fl (sum + luminance fl (fst (canvas_pixel cv x (stripY cv + y)))))"
      by simp
  qed
  show ?thesis
    by (simp only: columnBrightness_def Let_def eq)
qed

text \<open>
  On a canvas whose pixels all have one colour no column has an edge and the average is
  0, whenever both roundings leave 0 as it is.
\<close>

lemma edgeStrength_uniform:
  assumes "\<And>x y. fst (canvas_pixel cv x y) = q" and "dbl fl 0 = 0" and "f32 fl 0 = 0"
  shows "edgeStrength fl cv x = 0"
proof (cases "1 \<le> x \<and> x < canvas_width cv - 1")
  case False
  then show ?thesis by (auto simp: edgeStrength_def)
next
  case True
  have "columnBrightness fl cv (x + 1) = columnBrightness fl cv (x - 1)"
    using True by (simp add: columnBrightness_pixel assms(1))
  then show ?thesis using True by (simp add: edgeStrength_def assms(2,3))
qed

lemma avgEdge_uniform:
  assumes "\<And>x y. fst (canvas_pixel cv x y) = q" and "dbl fl 0 = 0" and "f32 fl 0 = 0"
  shows "avgEdge fl cv = 0"
proof -
  have e: "edgeStrength fl cv = (\<lambda>x. 0)"
    using edgeStrength_uniform [OF assms] by auto
  have first: "fold (\<lambda>i. dbl fl) js 0 = 0" for js :: "int list"
    by (induction js) (simp_all add: assms(2))
  have step: "slideStep fl cv i (0, 0, 0) = (0, 0, 0)" for i
    by (simp add: slideStep_def e assms(2))
  have slide: "fold (slideStep fl cv) js (0, 0, 0) = (0, 0, 0)" for js
    by (induction js) (simp_all add: step)
  show ?thesis
    by (simp add: avgEdge_def maxSum_def slideWindow_def firstWindow_def e first slide assms(2))
qed

lemma binaryRound_0: "binaryRound p 0 = 0"
  by (simp add: binaryRound_def)

text \<open>
  Claim C8. Whatever the two roundings are, the detector returns \<open>null\<close> when the
  strip, which is 40% of the image height rounded down, is less than 10 pixels high or the
  image is less than 20 pixels wide, and when the largest sliding-window sum of edge
  strengths divided by the window size is below 3; it returns \<open>null\<close> in no other
  case. The sums are the values of the running sum, one for each position of the window,
  and the quotient is the one the source computes and compares with 3.
\<close>

theorem detectBodyColumn_none:
  "(stripH cv < 10 \<or> canvas_width cv < 20 \<longrightarrow> GarmentDetection_detectBodyColumn fl cv = None)
   \<and> (avgEdge fl cv < 3 \<longrightarrow> GarmentDetection_detectBodyColumn fl cv = None)
   \<and> (GarmentDetection_detectBodyColumn fl cv = None \<longleftrightarrow>
         stripH cv < 10 \<or> canvas_width cv < 20 \<or> avgEdge fl cv < 3)
   \<and> stripH cv = (2 * canvas_height cv) div 5
   \<and> avgEdge fl cv = dbl fl (Max (set (windowSums fl cv)) / of_int (windowSize cv))
   \<and> length (windowSums fl cv) = nat (canvas_width cv - windowSize cv) + 1"
  using detect_None_iff [of fl cv] stripH_div [of cv] maxSum_is_Max [of fl cv]
  by (simp add: avgEdge_def windowSums_def length_runningSums)

theorem detectBodyColumn_none_witness:
  "GarmentDetection_detectBodyColumn ieee (plainCanvas 100 20) = None
   \<and> GarmentDetection_detectBodyColumn ieee (plainCanvas 19 100) = None
   \<and> avgEdge ieee (plainCanvas 40 50) < 3
   \<and> GarmentDetection_detectBodyColumn ieee (plainCanvas 40 50) = None"
proof -
  have u: "avgEdge ieee (plainCanvas 40 50) = 0"
    by (rule avgEdge_uniform [where q = "\<lparr>rgb_r = 90, rgb_g = 120, rgb_b = 200\<rparr>"])
       (simp_all add: plainCanvas_def ieee_def binaryRound_0)
  have d: "canvas_width (plainCanvas w h) = w" "canvas_height (plainCanvas w h) = h" for w h
    by (simp_all add: plainCanvas_def)
  have s: "stripH (plainCanvas 100 20) = 8"
    by (simp add: stripH_div d)
  show ?thesis
    using detectBodyColumn_none [of "plainCanvas 100 20" ieee]
          detectBodyColumn_none [of "plainCanvas 19 100" ieee]
          detectBodyColumn_none [of "plainCanvas 40 50" ieee]
    by (simp add: u d s)
qed

lemma lumW: "luminance ieee \<lparr>rgb_r = 255, rgb_g = 255, rgb_b = 255\<rparr> = 255"
  by code_simp

lemma lumB: "luminance ieee \<lparr>rgb_r = 0, rgb_g = 0, rgb_b = 0\<rparr> = 0"
  by code_simp

lemma sumW: "dbl ieee (dbl ieee (dbl ieee (dbl ieee (0 + 255) + 255) + 255) / 3) = 255"
  by code_simp

lemma f255: "f32 ieee 255 = 255" "dbl ieee 255 = 255" "dbl ieee (-255) = -255" "dbl ieee 0 = 0" "f32 ieee 0 = 0"
  by code_simp+

lemma dbl_multiples:
  "dbl ieee 255 = 255" "dbl ieee 510 = 510" "dbl ieee 765 = 765" "dbl ieee 1020 = 1020"
  "dbl ieee 1275 = 1275" "dbl ieee 1530 = 1530" "dbl ieee 1785 = 1785" "dbl ieee 2040 = 2040"
  "dbl ieee 2295 = 2295" "dbl ieee 2550 = 2550" "dbl ieee (- 255) = - 255" "dbl ieee 0 = 0"
  "f32 ieee 255 = 255" "f32 ieee 0 = 0"
  by code_simp+

text \<open>
  With the roundings of IEEE 754 the detector finds a column on the striped canvas: the
  largest running sum is 2550, first reached by the window that starts at column 1.
\<close>

lemma detectBodyColumn_striped:
  "GarmentDetection_detectBodyColumn ieee stripedCanvas = Some (0, 12)"
proof -
  have d: "canvas_width stripedCanvas = 20" "canvas_height stripedCanvas = 25"
    by (simp_all add: stripedCanvas_def)
  have px: "fst (canvas_pixel stripedCanvas x y) =
              (if x mod 4 < 2 then \<lparr>rgb_r = 255, rgb_g = 255, rgb_b = 255\<rparr>
               else \<lparr>rgb_r = 0, rgb_g = 0, rgb_b = 0\<rparr>)" for x y
    by (simp add: stripedCanvas_def)
  have sh: "stripH stripedCanvas = 10" by (simp add: stripH_div d)
  have ws: "windowSize stripedCanvas = 10" by (simp add: windowSize_div d)
  have rows: "sampledRows 10 = [0, 4, 8]"
    by (simp add: sampledRows_def upto_rec1)
  have cb: "columnBrightness ieee stripedCanvas x = (if x mod 4 < 2 then 255 else 0)"
    if "0 \<le> x" "x < 20" for x
    using that
    by (simp add: columnBrightness_pixel d sh rows px lumW lumB dbl_multiples)
  have edge: "edgeStrength ieee stripedCanvas x = 255" if "1 \<le> x" "x < 19" for x
  proof -
    have "(x + 1) mod 4 < 2 \<longleftrightarrow> \<not> (x - 1) mod 4 < 2" by presburger
    then show ?thesis
      using that by (auto simp: edgeStrength_def d cb dbl_multiples)
  qed
  have edge0: "edgeStrength ieee stripedCanvas 0 = 0" "edgeStrength ieee stripedCanvas 19 = 0"
    by (simp_all add: edgeStrength_def d)
  have first: "firstWindow ieee stripedCanvas = 2295"
    by (simp add: firstWindow_def ws upto_rec1 edge edge0 dbl_multiples)
  have slide: "slideWindow ieee stripedCanvas = (2295, 2550, 1)"
    by (simp add: slideWindow_def first ws d upto_rec1 slideStep_def edge edge0 dbl_multiples)
  have avg: "avgEdge ieee stripedCanvas = 255"
    by (simp add: avgEdge_def maxSum_def slide ws dbl_multiples)
  show ?thesis
    by (simp add: GarmentDetection_detectBodyColumn_def d sh ws avg maxStart_def slide
          Math_floor_def)
qed

text \<open>
  The rounding decides the result. On the canvas of two halves the two edge columns have
  exact strength 15 each, so the largest window sum is 30 and the exact average is 3: no
  \<open>null\<close>. With the roundings of IEEE 754 each edge strength is 1966079 / 131072,
  just below 15, the average is below 3, and the detector returns \<open>null\<close>.
\<close>

lemma step_values:
  "f32 ieee (if length [0, 4, 8 :: int] > 0
             then dbl ieee (fold (\<lambda>y sum. dbl ieee (sum + luminance ieee
                                    \<lparr>rgb_r = 235, rgb_g = 25, rgb_b = 255\<rparr>)) [0, 4, 8 :: int] 0
                            / of_nat (length [0, 4, 8 :: int]))
             else 128) = 14943519 / 131072"
  "f32 ieee (if length [0, 4, 8 :: int] > 0
             then dbl ieee (fold (\<lambda>y sum. dbl ieee (sum + luminance ieee
                                    \<lparr>rgb_r = 40, rgb_g = 166, rgb_b = 172\<rparr>)) [0, 4, 8 :: int] 0
                            / of_nat (length [0, 4, 8 :: int]))
             else 128) = 8454799 / 65536"
  "f32 ieee \<bar>dbl ieee (8454799 / 65536 - 14943519 / 131072)\<bar> = 1966079 / 131072"
  "dbl ieee (1966079 / 131072) = 1966079 / 131072"
  "dbl ieee (1966079 / 65536) = 1966079 / 65536"
  "dbl ieee (1966079 / 655360) = 6755396005081907 / 2251799813685248"
  by code_simp+

lemma detectBodyColumn_step_ieee:
  "GarmentDetection_detectBodyColumn ieee stepCanvas = None"
proof -
  have d: "canvas_width stepCanvas = 20" "canvas_height stepCanvas = 25"
    by (simp_all add: stepCanvas_def)
  have pxA: "fst (canvas_pixel stepCanvas x y) = \<lparr>rgb_r = 235, rgb_g = 25, rgb_b = 255\<rparr>"
    if "x < 10" for x y
    using that by (simp add: stepCanvas_def)
  have pxB: "fst (canvas_pixel stepCanvas x y) = \<lparr>rgb_r = 40, rgb_g = 166, rgb_b = 172\<rparr>"
    if "10 \<le> x" for x y
    using that by (simp add: stepCanvas_def)
  have sh: "stripH stepCanvas = 10" by (simp add: stripH_div d)
  have ws: "windowSize stepCanvas = 10" by (simp add: windowSize_div d)
  have rows: "sampledRows 10 = [0, 4, 8]"
    by (simp add: sampledRows_def upto_rec1)
  have z: "dbl ieee 0 = 0" "f32 ieee 0 = 0" by (simp_all add: ieee_def binaryRound_0)
  have cbA: "columnBrightness ieee stepCanvas x = 14943519 / 131072" if "0 \<le> x" "x < 10" for x
  proof -
    have "x < canvas_width stepCanvas" using that by (simp add: d)
    from columnBrightness_pixel [OF that(1) this, of ieee]
    show ?thesis
      by (simp only: sh rows pxA [OF that(2)] step_values(1))
  qed
  have cbB: "columnBrightness ieee stepCanvas x = 8454799 / 65536" if "10 \<le> x" "x < 20" for x
  proof -
    have "0 \<le> x" "x < canvas_width stepCanvas" using that by (simp_all add: d)
    from columnBrightness_pixel [OF this, of ieee]
    show ?thesis
      by (simp only: sh rows pxB [OF that(1)] step_values(2))
  qed
  have edge0: "edgeStrength ieee stepCanvas x = 0" if "x < 9 \<or> 10 < x" for x
  proof (cases "1 \<le> x \<and> x < 19")
    case False
    then show ?thesis by (auto simp: edgeStrength_def d)
  next
    case True
    then show ?thesis
      using that by (auto simp: edgeStrength_def d cbA cbB z)
  qed
  have e9: "edgeStrength ieee stepCanvas 9
              = f32 ieee \<bar>dbl ieee (columnBrightness ieee stepCanvas 10
                                    - columnBrightness ieee stepCanvas 8)\<bar>"
    and e10: "edgeStrength ieee stepCanvas 10
              = f32 ieee \<bar>dbl ieee (columnBrightness ieee stepCanvas 11
                                    - columnBrightness ieee stepCanvas 9)\<bar>"
    by (simp_all add: edgeStrength_def d)
  have c: "columnBrightness ieee stepCanvas 8 = 14943519 / 131072"
          "columnBrightness ieee stepCanvas 9 = 14943519 / 131072"
          "columnBrightness ieee stepCanvas 10 = 8454799 / 65536"
          "columnBrightness ieee stepCanvas 11 = 8454799 / 65536"
    by (simp_all add: cbA cbB)
  have edge1: "edgeStrength ieee stepCanvas 9 = 1966079 / 131072"
              "edgeStrength ieee stepCanvas 10 = 1966079 / 131072"
    by (simp_all only: e9 e10 c step_values(3))
  have first: "firstWindow ieee stepCanvas = 1966079 / 131072"
    by (simp add: firstWindow_def ws upto_rec1 edge0 edge1 z step_values)
  have slide: "slideWindow ieee stepCanvas = (1966079 / 131072, 1966079 / 65536, 1)"
    by (simp add: slideWindow_def first ws d upto_rec1 slideStep_def Let_def edge0 edge1 z
          step_values)
  have avg: "avgEdge ieee stepCanvas = 6755396005081907 / 2251799813685248"
    by (simp add: avgEdge_def maxSum_def slide ws step_values)
  show ?thesis
    by (simp add: GarmentDetection_detectBodyColumn_def d sh ws avg)
qed

lemma detectBodyColumn_step_exact:
  "GarmentDetection_detectBodyColumn exactFp stepCanvas = Some (0, 12)"
proof -
  have d: "canvas_width stepCanvas = 20" "canvas_height stepCanvas = 25"
    by (simp_all add: stepCanvas_def)
  have px: "fst (canvas_pixel stepCanvas x y) =
              (if x < 10 then \<lparr>rgb_r = 235, rgb_g = 25, rgb_b = 255\<rparr>
               else \<lparr>rgb_r = 40, rgb_g = 166, rgb_b = 172\<rparr>)" for x y
    by (simp add: stepCanvas_def)
  have sh: "stripH stepCanvas = 10" by (simp add: stripH_div d)
  have ws: "windowSize stepCanvas = 10" by (simp add: windowSize_div d)
  have rows: "sampledRows 10 = [0, 4, 8]"
    by (simp add: sampledRows_def upto_rec1)
  have fp: "dbl exactFp v = v" "f32 exactFp v = v" for v by (simp_all add: exactFp_def)
  have cb: "columnBrightness exactFp stepCanvas x = (if x < 10 then 11401 / 100 else 12901 / 100)"
    if "0 \<le> x" "x < 20" for x
    using that by (simp add: columnBrightness_pixel d sh rows px luminance_def fp)
  have edge: "edgeStrength exactFp stepCanvas x = (if x = 9 \<or> x = 10 then 15 else 0)" for x
    by (auto simp: edgeStrength_def d cb fp)
  have slide: "slideWindow exactFp stepCanvas = (15, 30, 1)"
    by (simp add: slideWindow_def firstWindow_def ws d upto_rec1 slideStep_def Let_def edge fp)
  show ?thesis
    by (simp add: GarmentDetection_detectBodyColumn_def d sh ws avgEdge_def maxSum_def
          maxStart_def slide fp Math_floor_def)
qed

end
